theory Spec2Isabelle
  imports Complex_Main "HOL-Library.Sublist"
begin

section \<open>Values of the host language\<close>

subsection \<open>Strings\<close>

text \<open>
  A JavaScript string is modelled as a \<^typ>\<open>string\<close> holding its UTF-8 bytes. The program
  only concatenates strings, compares them for equality and tests one for emptiness
  (\<^verbatim>\<open>z.string().min(1)\<close>); on well-formed text all three agree with the UTF-16 view
  of the engine. The Korean literals of \<^verbatim>\<open>src/index.ts\<close> are written out byte by
  byte, with their code points in the comment of each constant.
\<close>

definition quote :: string where
  \<comment> \<open>the one-character string U+0022\<close>
  "quote = [CHR 0x22]"

definition newline :: string where
  \<comment> \<open>\<^verbatim>\<open>"\n"\<close>\<close>
  "newline = [CHR 0x0A]"

definition query_empty_message :: string where
  \<comment> \<open>line 33: U+AC80 U+C0C9 U+C5B4 U+B294, U+BE44 U+C6CC U+B458, U+C218,
      U+C5C6 U+C2B5 U+B2C8 U+B2E4 (words separated by spaces)\<close>
  "query_empty_message =
     [CHR 0xEA, CHR 0xB2, CHR 0x80, CHR 0xEC, CHR 0x83, CHR 0x89, CHR 0xEC, CHR 0x96, CHR 0xB4,
      CHR 0xEB, CHR 0x8A, CHR 0x94] @ '' '' @
     [CHR 0xEB, CHR 0xB9, CHR 0x84, CHR 0xEC, CHR 0x9B, CHR 0x8C, CHR 0xEB, CHR 0x91, CHR 0x98] @ '' '' @
     [CHR 0xEC, CHR 0x88, CHR 0x98] @ '' '' @
     [CHR 0xEC, CHR 0x97, CHR 0x86, CHR 0xEC, CHR 0x8A, CHR 0xB5, CHR 0xEB, CHR 0x8B, CHR 0x88,
      CHR 0xEB, CHR 0x8B, CHR 0xA4]"

definition api_error_prefix :: string where
  \<comment> \<open>line 83: \<^verbatim>\<open>API\<close>, U+C751 U+B2F5, U+C624 U+B958, then a colon and a space\<close>
  "api_error_prefix =
     ''API '' @ [CHR 0xEC, CHR 0x9D, CHR 0x91, CHR 0xEB, CHR 0x8B, CHR 0xB5] @ '' '' @
     [CHR 0xEC, CHR 0x98, CHR 0xA4, CHR 0xEB, CHR 0xA5, CHR 0x98] @ '': ''"

definition malformed_message :: string where
  \<comment> \<open>line 90: U+C798 U+BABB U+B41C, U+C751 U+B2F5, U+D615 U+C2DD U+C785 U+B2C8 U+B2E4\<close>
  "malformed_message =
     [CHR 0xEC, CHR 0x9E, CHR 0x98, CHR 0xEB, CHR 0xAA, CHR 0xBB, CHR 0xEB, CHR 0x90, CHR 0x9C] @ '' '' @
     [CHR 0xEC, CHR 0x9D, CHR 0x91, CHR 0xEB, CHR 0x8B, CHR 0xB5] @ '' '' @
     [CHR 0xED, CHR 0x98, CHR 0x95, CHR 0xEC, CHR 0x8B, CHR 0x9D, CHR 0xEC, CHR 0x9E, CHR 0x85,
      CHR 0xEB, CHR 0x8B, CHR 0x88, CHR 0xEB, CHR 0x8B, CHR 0xA4]"

definition timeout_message :: string where
  \<comment> \<open>line 97: U+C694 U+CCAD, U+D0C0 U+C784 U+C544 U+C6C3 and a colon, U+AC80 U+C0C9,
      U+C11C U+BC84 U+C5D0 U+C11C, U+C751 U+B2F5 U+C774, U+C5C6 U+C2B5 U+B2C8 U+B2E4\<close>
  "timeout_message =
     [CHR 0xEC, CHR 0x9A, CHR 0x94, CHR 0xEC, CHR 0xB2, CHR 0xAD] @ '' '' @
     [CHR 0xED, CHR 0x83, CHR 0x80, CHR 0xEC, CHR 0x9E, CHR 0x84, CHR 0xEC, CHR 0x95, CHR 0x84,
      CHR 0xEC, CHR 0x9B, CHR 0x83] @ '': '' @
     [CHR 0xEA, CHR 0xB2, CHR 0x80, CHR 0xEC, CHR 0x83, CHR 0x89] @ '' '' @
     [CHR 0xEC, CHR 0x84, CHR 0x9C, CHR 0xEB, CHR 0xB2, CHR 0x84, CHR 0xEC, CHR 0x97, CHR 0x90,
      CHR 0xEC, CHR 0x84, CHR 0x9C] @ '' '' @
     [CHR 0xEC, CHR 0x9D, CHR 0x91, CHR 0xEB, CHR 0x8B, CHR 0xB5, CHR 0xEC, CHR 0x9D, CHR 0xB4] @ '' '' @
     [CHR 0xEC, CHR 0x97, CHR 0x86, CHR 0xEC, CHR 0x8A, CHR 0xB5, CHR 0xEB, CHR 0x8B, CHR 0x88,
      CHR 0xEB, CHR 0x8B, CHR 0xA4]"

definition search_error_prefix :: string where
  \<comment> \<open>line 101: U+ACF5 U+ACE0, U+AC80 U+C0C9, U+C911, U+C624 U+B958, U+BC1C U+C0DD,
      then a colon and a space\<close>
  "search_error_prefix =
     [CHR 0xEA, CHR 0xB3, CHR 0xB5, CHR 0xEA, CHR 0xB3, CHR 0xA0] @ '' '' @
     [CHR 0xEA, CHR 0xB2, CHR 0x80, CHR 0xEC, CHR 0x83, CHR 0x89] @ '' '' @
     [CHR 0xEC, CHR 0xA4, CHR 0x91] @ '' '' @
     [CHR 0xEC, CHR 0x98, CHR 0xA4, CHR 0xEB, CHR 0xA5, CHR 0x98] @ '' '' @
     [CHR 0xEB, CHR 0xB0, CHR 0x9C, CHR 0xEC, CHR 0x83, CHR 0x9D] @ '': ''"

definition no_results_suffix :: string where
  \<comment> \<open>line 108: U+C5D0, U+B300 U+D55C, U+AC80 U+C0C9, U+ACB0 U+ACFC U+AC00,
      U+C5C6 U+C2B5 U+B2C8 U+B2E4 and a full stop\<close>
  "no_results_suffix =
     [CHR 0xEC, CHR 0x97, CHR 0x90] @ '' '' @
     [CHR 0xEB, CHR 0x8C, CHR 0x80, CHR 0xED, CHR 0x95, CHR 0x9C] @ '' '' @
     [CHR 0xEA, CHR 0xB2, CHR 0x80, CHR 0xEC, CHR 0x83, CHR 0x89] @ '' '' @
     [CHR 0xEA, CHR 0xB2, CHR 0xB0, CHR 0xEA, CHR 0xB3, CHR 0xBC, CHR 0xEA, CHR 0xB0, CHR 0x80] @ '' '' @
     [CHR 0xEC, CHR 0x97, CHR 0x86, CHR 0xEC, CHR 0x8A, CHR 0xB5, CHR 0xEB, CHR 0x8B, CHR 0x88,
      CHR 0xEB, CHR 0x8B, CHR 0xA4] @ ''.''"

definition total_prefix :: string where
  \<comment> \<open>line 111: U+CD1D and a space\<close>
  "total_prefix = [CHR 0xEC, CHR 0xB4, CHR 0x9D] @ '' ''"

definition found_suffix :: string where
  \<comment> \<open>line 111: U+AC1C U+C758, U+ACF5 U+ACE0 U+B97C, U+CC3E U+C558 U+C2B5 U+B2C8 U+B2E4
      and a full stop\<close>
  "found_suffix =
     [CHR 0xEA, CHR 0xB0, CHR 0x9C, CHR 0xEC, CHR 0x9D, CHR 0x98] @ '' '' @
     [CHR 0xEA, CHR 0xB3, CHR 0xB5, CHR 0xEA, CHR 0xB3, CHR 0xA0, CHR 0xEB, CHR 0xA5, CHR 0xBC] @ '' '' @
     [CHR 0xEC, CHR 0xB0, CHR 0xBE, CHR 0xEC, CHR 0x95, CHR 0x98, CHR 0xEC, CHR 0x8A, CHR 0xB5,
      CHR 0xEB, CHR 0x8B, CHR 0x88, CHR 0xEB, CHR 0x8B, CHR 0xA4] @ ''.''"

definition organization_label :: string where
  \<comment> \<open>line 119: U+AE30 U+AD00, a colon and a space\<close>
  "organization_label = [CHR 0xEA, CHR 0xB8, CHR 0xB0, CHR 0xEA, CHR 0xB4, CHR 0x80] @ '': ''"

definition region_label :: string where
  \<comment> \<open>line 120: U+C9C0 U+C5ED, a colon and a space\<close>
  "region_label = [CHR 0xEC, CHR 0xA7, CHR 0x80, CHR 0xEC, CHR 0x97, CHR 0xAD] @ '': ''"

definition target_label :: string where
  \<comment> \<open>line 121: U+B300 U+C0C1, a colon and a space\<close>
  "target_label = [CHR 0xEB, CHR 0x8C, CHR 0x80, CHR 0xEC, CHR 0x83, CHR 0x81] @ '': ''"

definition similarity_label :: string where
  \<comment> \<open>line 122: U+C720 U+C0AC U+B3C4, a colon and a space\<close>
  "similarity_label =
     [CHR 0xEC, CHR 0x9C, CHR 0xA0, CHR 0xEC, CHR 0x82, CHR 0xAC, CHR 0xEB, CHR 0x8F, CHR 0x84] @ '': ''"

definition invalid_args_prefix :: string where
  \<comment> \<open>line 157: U+C798 U+BABB U+B41C, U+C778 U+C790, a colon and a space\<close>
  "invalid_args_prefix =
     [CHR 0xEC, CHR 0x9E, CHR 0x98, CHR 0xEB, CHR 0xAA, CHR 0xBB, CHR 0xEB, CHR 0x90, CHR 0x9C] @ '' '' @
     [CHR 0xEC, CHR 0x9D, CHR 0xB8, CHR 0xEC, CHR 0x9E, CHR 0x90] @ '': ''"

definition unknown_tool_prefix :: string where
  \<comment> \<open>line 176: U+C54C, U+C218, U+C5C6 U+B294, U+B3C4 U+AD6C, a colon and a space\<close>
  "unknown_tool_prefix =
     [CHR 0xEC, CHR 0x95, CHR 0x8C] @ '' '' @ [CHR 0xEC, CHR 0x88, CHR 0x98] @ '' '' @
     [CHR 0xEC, CHR 0x97, CHR 0x86, CHR 0xEB, CHR 0x8A, CHR 0x94] @ '' '' @
     [CHR 0xEB, CHR 0x8F, CHR 0x84, CHR 0xEA, CHR 0xB5, CHR 0xAC] @ '': ''"

definition error_prefix :: string where
  \<comment> \<open>line 180: U+C624 U+B958, a colon and a space\<close>
  "error_prefix = [CHR 0xEC, CHR 0x98, CHR 0xA4, CHR 0xEB, CHR 0xA5, CHR 0x98] @ '': ''"

text \<open>\<^verbatim>\<open>Array.prototype.join\<close> on an array of strings.\<close>

fun js_join :: "string \<Rightarrow> string list \<Rightarrow> string" where
  "js_join sep [] = []"
| "js_join sep [x] = x"
| "js_join sep (x # y # ys) = x @ sep @ js_join sep (y # ys)"

subsection \<open>Numbers\<close>

text \<open>
  A Number is an IEEE 754 binary64 value. \<open>Fin x\<close> is the finite double whose exact value
  is the real number \<open>x\<close>; the two zeros are identified, since no operation used by the
  program tells them apart (\<^verbatim>\<open>toFixed\<close> prints both as \<^verbatim>\<open>0.0\<close>).
\<close>

datatype jsnum = NaN | PosInf | NegInf | Fin real

definition pow2 :: "int \<Rightarrow> real" where
  "pow2 k = (if 0 \<le> k then 2 ^ nat k else 1 / 2 ^ nat (- k))"

function bit_length :: "int \<Rightarrow> int" where
  "bit_length a = (if a \<le> 0 then 0 else 1 + bit_length (a div 2))"
  by pat_completeness auto
termination
  by (relation "measure nat") auto

declare bit_length.simps [simp del]

definition floor_log2 :: "real \<Rightarrow> int" where
  \<comment> \<open>for \<open>0 < x\<close>: the exponent \<open>e\<close> with \<open>2 ^ e \<le> x < 2 ^ (e + 1)\<close>\<close>
  "floor_log2 x =
     (if 1 \<le> x then bit_length \<lfloor>x\<rfloor> - 1 else - bit_length (\<lceil>1 / x\<rceil> - 1))"

definition round_half_even :: "real \<Rightarrow> int" where
  "round_half_even q =
     (let f = \<lfloor>q\<rfloor>; d = q - of_int f
      in if d < 1 / 2 then f else if 1 / 2 < d then f + 1
         else if even f then f else f + 1)"

definition round_binary64_pos :: "real \<Rightarrow> jsnum" where
  \<comment> \<open>round to nearest, ties to even, with 53 significant bits, gradual underflow
      below \<open>2 ^ - 1022\<close> and overflow to infinity\<close>
  "round_binary64_pos x =
     (let e = max (floor_log2 x) (- 1022);
          ulp = pow2 (e - 52);
          y = of_int (round_half_even (x / ulp)) * ulp
      in if pow2 1024 \<le> y then PosInf else Fin y)"

fun js_neg :: "jsnum \<Rightarrow> jsnum" where
  "js_neg NaN = NaN"
| "js_neg PosInf = NegInf"
| "js_neg NegInf = PosInf"
| "js_neg (Fin x) = Fin (- x)"

definition round_binary64 :: "real \<Rightarrow> jsnum" where
  \<comment> \<open>the Number value for a real number\<close>
  "round_binary64 x =
     (if x = 0 then Fin 0
      else if 0 < x then round_binary64_pos x
      else js_neg (round_binary64_pos (- x)))"

fun js_times100 :: "jsnum \<Rightarrow> jsnum" where
  \<comment> \<open>\<^verbatim>\<open>v * 100\<close> for a Number \<^verbatim>\<open>v\<close>\<close>
  "js_times100 NaN = NaN"
| "js_times100 PosInf = PosInf"
| "js_times100 NegInf = NegInf"
| "js_times100 (Fin x) = round_binary64 (x * 100)"

subsection \<open>Numbers as text\<close>

definition digit_char :: "int \<Rightarrow> char" where
  "digit_char d = ''0123456789'' ! nat d"

function decimal_digits :: "int \<Rightarrow> string" where
  \<comment> \<open>the decimal representation of a non-negative integer\<close>
  "decimal_digits n =
     (if n < 10 then [digit_char n] else decimal_digits (n div 10) @ [digit_char (n mod 10)])"
  by pat_completeness auto
termination
  by (relation "measure nat") auto

declare decimal_digits.simps [simp del]

text \<open>
  \<^verbatim>\<open>Number::toString\<close> (ECMA-262, 6.1.6.1.20) for a finite \<open>x \<ge> 10 ^ 21\<close>, the only
  range in which \<^verbatim>\<open>toFixed\<close> falls back on it. Such an \<open>x\<close> is an integer of
  \<open>n0 \<ge> 22\<close> digits. The shortest digit string \<open>s\<close> (of \<open>k\<close> digits) with
  \<open>s * 10 ^ (n - k)\<close> rounding to \<open>x\<close> is searched for \<open>k = 1, \<dots>, 17\<close>; among the two
  neighbours of \<open>x\<close> with \<open>k\<close> digits the nearer one is tried first. The result is in
  exponent notation. For a double the search ends with 17 digits at the latest; the last
  line of \<open>Number_toString_large\<close> only keeps the function total on the other reals.
\<close>

definition exp_candidates :: "real \<Rightarrow> nat \<Rightarrow> (int \<times> nat \<times> nat) list" where
  "exp_candidates x k =
     (let n0 = length (decimal_digits \<lfloor>x\<rfloor>);
          p = 10 ^ (n0 - k);
          lo = \<lfloor>x\<rfloor> div p;
          hi = lo + 1;
          c_lo = (lo, n0, k);
          c_hi = (if hi = 10 ^ k then (10 ^ (k - 1), n0 + 1, k) else (hi, n0, k));
          d_lo = x - of_int (lo * p);
          d_hi = of_int (hi * p) - x
      in if d_hi < d_lo \<or> (d_hi = d_lo \<and> even hi) then [c_hi, c_lo] else [c_lo, c_hi])"

definition exp_value :: "int \<times> nat \<times> nat \<Rightarrow> real" where
  "exp_value c = (case c of (s, n, k) \<Rightarrow> of_int (s * 10 ^ (n - k)))"

definition exp_render :: "int \<times> nat \<times> nat \<Rightarrow> string" where
  "exp_render c =
     (case c of (s, n, k) \<Rightarrow>
        (let ds = decimal_digits s; e = decimal_digits (int n - 1)
         in if k = 1 then ds @ ''e+'' @ e
            else take 1 ds @ ''.'' @ drop 1 ds @ ''e+'' @ e))"

definition Number_toString_large :: "real \<Rightarrow> string" where
  "Number_toString_large x =
     (case List.find (\<lambda>c. round_binary64 (exp_value c) = Fin x)
             (concat (map (exp_candidates x) [1..<18])) of
        Some c \<Rightarrow> exp_render c
      | None \<Rightarrow> exp_render (hd (exp_candidates x 17)))"

text \<open>
  \<^verbatim>\<open>Number.prototype.toFixed(1)\<close> (ECMA-262, 21.1.3.3), step by step: a value that is
  not finite is printed by \<^verbatim>\<open>Number::toString\<close>; otherwise the sign is split off, a
  magnitude of at least \<open>10 ^ 21\<close> is printed by \<^verbatim>\<open>Number::toString\<close>, and below that
  \<open>n\<close> is the integer nearest to ten times the magnitude (the larger one on a tie), its
  digits are padded to two and a point is put before the last one.
\<close>

definition fixed_digits :: "int \<Rightarrow> string" where
  \<comment> \<open>steps 11.b to 11.d for one fraction digit\<close>
  "fixed_digits n =
     (let m = (if n = 0 then ''0'' else decimal_digits n);
          k = length m;
          m' = (if k \<le> 1 then replicate (1 + 1 - k) (CHR ''0'') @ m else m);
          k' = (if k \<le> 1 then 1 + 1 else k)
      in take (k' - 1) m' @ ''.'' @ drop (k' - 1) m')"

definition toFixed1 :: "jsnum \<Rightarrow> string" where
  "toFixed1 v =
     (case v of
        NaN \<Rightarrow> ''NaN''
      | PosInf \<Rightarrow> ''Infinity''
      | NegInf \<Rightarrow> ''-Infinity''
      | Fin x0 \<Rightarrow>
          (let s = (if x0 < 0 then ''-'' else '''');
               x = (if x0 < 0 then - x0 else x0)
           in if 10 ^ 21 \<le> x then s @ Number_toString_large x
              else s @ fixed_digits \<lfloor>x * 10 + 1 / 2\<rfloor>))"

subsection \<open>JSON values\<close>

text \<open>
  What \<^verbatim>\<open>JSON.parse\<close> builds and what arrives as tool arguments. An object is the list of
  its own properties; a property is read with \<^const>\<open>map_of\<close> (an object has each key
  once), and a missing property reads as \<^verbatim>\<open>undefined\<close>, here \<^const>\<open>None\<close>.
\<close>

datatype json =
    JNull
  | JBool bool
  | JNum jsnum
  | JStr string
  | JArr "json list"
  | JObj "(string \<times> json) list"

subsection \<open>Exceptions and completions\<close>

text \<open>
  A thrown value is either an \<^verbatim>\<open>Error\<close> instance, of which the program reads
  \<^verbatim>\<open>name\<close> and \<^verbatim>\<open>message\<close>, or something else, of which it reads only
  \<^verbatim>\<open>String(error)\<close>: \<open>NonError s\<close> is a thrown value with \<^verbatim>\<open>String(error) = s\<close>.
\<close>

datatype thrown = Error string string | NonError string

text \<open>
  How a call ends: it returns (an awaited promise fulfils), it throws (the promise rejects),
  or it never completes (the promise stays pending).
\<close>

datatype 'a outcome = Returns 'a | Throws thrown | Never

section \<open>The types of \<^verbatim>\<open>src/index.ts\<close> (lines 14--27)\<close>

record metadata =
  organization :: string
  region :: string
  startupHistory :: string

record NoticeResult =
  title :: string
  url :: string
  score :: jsnum
  metadata :: metadata

text \<open>
  \<^verbatim>\<open>(await response.json()) as SearchResponse\<close> is an unchecked cast. An element of the
  received array is a \<^typ>\<open>NoticeResult\<close> when it is an object with these properties of
  these types (further properties are allowed); \<open>as_NoticeResult\<close> reads it as one.
\<close>

definition as_string :: "json option \<Rightarrow> string option" where
  "as_string v = (case v of Some (JStr s) \<Rightarrow> Some s | _ \<Rightarrow> None)"

definition as_number :: "json option \<Rightarrow> jsnum option" where
  "as_number v = (case v of Some (JNum n) \<Rightarrow> Some n | _ \<Rightarrow> None)"

definition as_metadata :: "json option \<Rightarrow> metadata option" where
  "as_metadata v =
     (case v of
        Some (JObj m) \<Rightarrow>
          (case (as_string (map_of m ''organization''), as_string (map_of m ''region''),
                 as_string (map_of m ''startupHistory'')) of
             (Some org, Some reg, Some hist) \<Rightarrow>
               Some \<lparr>organization = org, region = reg, startupHistory = hist\<rparr>
           | _ \<Rightarrow> None)
      | _ \<Rightarrow> None)"

definition as_NoticeResult :: "json \<Rightarrow> NoticeResult option" where
  "as_NoticeResult v =
     (case v of
        JObj r \<Rightarrow>
          (case (as_string (map_of r ''title''), as_string (map_of r ''url''),
                 as_number (map_of r ''score''), as_metadata (map_of r ''metadata'')) of
             (Some t, Some u, Some sc, Some md) \<Rightarrow>
               Some \<lparr>title = t, url = u, score = sc, metadata = md\<rparr>
           | _ \<Rightarrow> None)
      | _ \<Rightarrow> None)"

fun as_NoticeResults :: "json list \<Rightarrow> NoticeResult list option" where
  "as_NoticeResults [] = Some []"
| "as_NoticeResults (v # vs) =
     (case (as_NoticeResult v, as_NoticeResults vs) of
        (Some r, Some rs) \<Rightarrow> Some (r # rs)
      | _ \<Rightarrow> None)"

section \<open>\<^verbatim>\<open>SearchNoticeArgsSchema\<close> (lines 30--43)\<close>

text \<open>
  The schema is \<^verbatim>\<open>z.object({query: z.string().min(1, ...), limit:
  z.number().int().min(1).max(50).optional().default(5)})\<close>. \<open>safeParse\<close> below is what
  zod 3 computes for it: the input must be an object; each key of the schema is parsed from
  the property of that name, keys that the schema does not name are dropped (zod's default
  for objects), every check of a number is run, and the issues of \<^verbatim>\<open>query\<close> come before
  those of \<^verbatim>\<open>limit\<close>. The English messages are zod's defaults.
\<close>

record issue =
  path :: "string list"
  message :: string

record SearchRequest =
  query :: string
  limit :: int

definition zod_type :: "json option \<Rightarrow> string" where
  \<comment> \<open>zod's name for the type of a value\<close>
  "zod_type v =
     (case v of
        None \<Rightarrow> ''undefined''
      | Some JNull \<Rightarrow> ''null''
      | Some (JBool _) \<Rightarrow> ''boolean''
      | Some (JNum NaN) \<Rightarrow> ''nan''
      | Some (JNum _) \<Rightarrow> ''number''
      | Some (JStr _) \<Rightarrow> ''string''
      | Some (JArr _) \<Rightarrow> ''array''
      | Some (JObj _) \<Rightarrow> ''object'')"

definition invalid_type :: "string list \<Rightarrow> string \<Rightarrow> json option \<Rightarrow> issue" where
  "invalid_type p expected v =
     \<lparr>path = p,
      message = (if v = None then ''Required''
                 else ''Expected '' @ expected @ '', received '' @ zod_type v)\<rparr>"

definition parse_query :: "json option \<Rightarrow> issue list + string" where
  \<comment> \<open>\<^verbatim>\<open>z.string().min(1, ...)\<close>\<close>
  "parse_query v =
     (case v of
        Some (JStr s) \<Rightarrow>
          (if length s < 1 then Inl [\<lparr>path = [''query''], message = query_empty_message\<rparr>]
           else Inr s)
      | _ \<Rightarrow> Inl [invalid_type [''query''] ''string'' v])"

fun is_integer :: "jsnum \<Rightarrow> bool" where
  \<comment> \<open>\<^verbatim>\<open>Number.isInteger\<close>\<close>
  "is_integer (Fin x) = (of_int \<lfloor>x\<rfloor> = x)"
| "is_integer _ = False"

fun js_less :: "jsnum \<Rightarrow> real \<Rightarrow> bool" where
  \<comment> \<open>\<^verbatim>\<open>v < c\<close> for a finite constant \<^verbatim>\<open>c\<close>\<close>
  "js_less (Fin x) c = (x < c)"
| "js_less NegInf c = True"
| "js_less _ c = False"

fun js_greater :: "jsnum \<Rightarrow> real \<Rightarrow> bool" where
  \<comment> \<open>\<^verbatim>\<open>v > c\<close> for a finite constant \<^verbatim>\<open>c\<close>\<close>
  "js_greater (Fin x) c = (c < x)"
| "js_greater PosInf c = True"
| "js_greater _ c = False"

fun to_int :: "jsnum \<Rightarrow> int" where
  \<comment> \<open>the value of a Number that passed \<^verbatim>\<open>int()\<close>\<close>
  "to_int (Fin x) = \<lfloor>x\<rfloor>"
| "to_int _ = 0"

definition number_checks :: "jsnum \<Rightarrow> issue list" where
  \<comment> \<open>\<^verbatim>\<open>.int().min(1).max(50)\<close>, in this order\<close>
  "number_checks n =
     (if is_integer n then []
      else [\<lparr>path = [''limit''], message = ''Expected integer, received float''\<rparr>]) @
     (if js_less n 1
      then [\<lparr>path = [''limit''], message = ''Number must be greater than or equal to 1''\<rparr>]
      else []) @
     (if js_greater n 50
      then [\<lparr>path = [''limit''], message = ''Number must be less than or equal to 50''\<rparr>]
      else [])"

definition parse_limit :: "json option \<Rightarrow> issue list + int" where
  \<comment> \<open>\<^verbatim>\<open>z.number().int().min(1).max(50).optional().default(5)\<close>\<close>
  "parse_limit v =
     (case v of
        None \<Rightarrow> Inr 5
      | Some (JNum n) \<Rightarrow>
          (if n = NaN then Inl [invalid_type [''limit''] ''number'' v]
           else if number_checks n = [] then Inr (to_int n)
           else Inl (number_checks n))
      | _ \<Rightarrow> Inl [invalid_type [''limit''] ''number'' v])"

definition issues_of :: "issue list + 'a \<Rightarrow> issue list" where
  "issues_of r = (case r of Inl is \<Rightarrow> is | Inr _ \<Rightarrow> [])"

definition safeParse :: "json option \<Rightarrow> issue list + SearchRequest" where
  "safeParse args =
     (case args of
        Some (JObj kvs) \<Rightarrow>
          (case (parse_query (map_of kvs ''query''), parse_limit (map_of kvs ''limit'')) of
             (Inr q, Inr l) \<Rightarrow> Inr \<lparr>query = q, limit = l\<rparr>
           | (rq, rl) \<Rightarrow> Inl (issues_of rq @ issues_of rl))
      | _ \<Rightarrow> Inl [invalid_type [] ''object'' args])"

section \<open>\<^verbatim>\<open>searchNotices\<close> (lines 62--103)\<close>

subsection \<open>The remote endpoint and the timer\<close>

text \<open>
  A response as the program sees it: the status line, and how \<^verbatim>\<open>response.json()\<close> ends
  (with the parsed body, with an exception such as a \<^verbatim>\<open>SyntaxError\<close>, or never, when the
  body stalls). \<^verbatim>\<open>response.ok\<close> is true for the statuses 200 to 299.
\<close>

record response =
  status :: nat
  statusText :: string
  json_body :: "json outcome"

definition ok :: "response \<Rightarrow> bool" where
  "ok r = (200 \<le> status r \<and> status r \<le> 299)"

text \<open>
  The network, for one call: left alone, \<^verbatim>\<open>fetch\<close> would settle as \<open>settles\<close> says,
  \<open>latency\<close> milliseconds after the call (\<open>Never\<close>: it would not settle at all).
\<close>

record remote =
  latency :: nat
  settles :: "response outcome"

text \<open>
  Lines 67--68 and 76 give \<^verbatim>\<open>fetch\<close> the signal of a fresh \<^verbatim>\<open>AbortController\<close> and arm a
  timer that aborts it after \<open>ms\<close> milliseconds. A fetch that has not settled when its
  signal is aborted rejects with the signal's reason, a \<^verbatim>\<open>DOMException\<close> named
  \<^verbatim>\<open>AbortError\<close> (an \<^verbatim>\<open>Error\<close> instance on Node.js, which the shebang line targets).
  Time is counted in whole milliseconds; a fetch settling in the very millisecond in which
  the timer fires is taken to be aborted.
\<close>

definition abort_error :: thrown where
  "abort_error = Error ''AbortError'' ''This operation was aborted''"

definition fetch_with_signal :: "nat \<Rightarrow> remote \<Rightarrow> response outcome" where
  "fetch_with_signal ms net =
     (if settles net \<noteq> Never \<and> latency net < ms then settles net else Throws abort_error)"

record http_request =
  endpoint :: string
  "method" :: string
  headers :: "(string \<times> string) list"
  body :: json

text \<open>What the function does to the outside world, in order.\<close>

datatype effect = SetTimeout nat | Fetch http_request | ClearTimeout

subsection \<open>Reading the parsed body\<close>

definition read_results :: "json \<Rightarrow> thrown + json option" where
  \<comment> \<open>\<^verbatim>\<open>data.results\<close>: reading a property of \<^verbatim>\<open>null\<close> throws a \<^verbatim>\<open>TypeError\<close>
      (the message is the one of V8); a value that is not an object has no such property\<close>
  "read_results data =
     (case data of
        JNull \<Rightarrow>
          Inl (Error ''TypeError''
                 (''Cannot read properties of null (reading '' @ [CHR 0x27] @ ''results'' @
                  [CHR 0x27] @ '')''))
      | JObj kvs \<Rightarrow> Inr (map_of kvs ''results'')
      | _ \<Rightarrow> Inr None)"

definition falsy :: "json option \<Rightarrow> bool" where
  \<comment> \<open>\<^verbatim>\<open>!v\<close>\<close>
  "falsy v =
     (case v of
        None \<Rightarrow> True
      | Some JNull \<Rightarrow> True
      | Some (JBool b) \<Rightarrow> \<not> b
      | Some (JNum n) \<Rightarrow> n = NaN \<or> n = Fin 0
      | Some (JStr s) \<Rightarrow> s = []
      | Some (JArr _) \<Rightarrow> False
      | Some (JObj _) \<Rightarrow> False)"

definition isArray :: "json option \<Rightarrow> bool" where
  \<comment> \<open>\<^verbatim>\<open>Array.isArray(v)\<close>\<close>
  "isArray v = (case v of Some (JArr _) \<Rightarrow> True | _ \<Rightarrow> False)"

definition elements :: "json option \<Rightarrow> json list" where
  "elements v = (case v of Some (JArr xs) \<Rightarrow> xs | _ \<Rightarrow> [])"

definition js_slice0 :: "'a list \<Rightarrow> int \<Rightarrow> 'a list" where
  \<comment> \<open>\<^verbatim>\<open>xs.slice(0, end)\<close> for an integer \<^verbatim>\<open>end\<close>: a negative end counts from the
      back, and the end is clamped to the length\<close>
  "js_slice0 xs end =
     (let len = int (length xs);
          final = (if end < 0 then max (len + end) 0 else min end len)
      in take (nat final) xs)"

subsection \<open>The function\<close>

definition search_catch :: "thrown \<Rightarrow> 'a outcome" where
  \<comment> \<open>the \<^verbatim>\<open>catch\<close> block, lines 94--102\<close>
  "search_catch error =
     (case error of
        Error nm msg \<Rightarrow>
          (if nm = ''AbortError'' then Throws (Error ''Error'' timeout_message)
           else Throws error)
      | NonError s \<Rightarrow> Throws (Error ''Error'' (search_error_prefix @ s)))"

definition search_request :: "string \<Rightarrow> http_request" where
  \<comment> \<open>lines 70--77; \<open>body\<close> is the value given to \<^verbatim>\<open>JSON.stringify\<close>\<close>
  "search_request q =
     \<lparr>endpoint = ''https://ai.start-hub.kr/search'',
      method = ''POST'',
      headers = [(''Content-Type'', ''application/json'')],
      body = JObj [(''query'', JStr q)]\<rparr>"

definition searchNotices ::
  "string \<Rightarrow> int option \<Rightarrow> remote \<Rightarrow> effect list \<times> json list outcome" where
  "searchNotices q limit_arg net =
     (let limit = (case limit_arg of None \<Rightarrow> 5 | Some l \<Rightarrow> l);
          started = [SetTimeout 10000, Fetch (search_request q)]
      in case fetch_with_signal 10000 net of
           Never \<Rightarrow> (started, Never)
         | Throws error \<Rightarrow> (started, search_catch error)
         | Returns response \<Rightarrow>
             (started @ [ClearTimeout],
              if \<not> ok response
              then search_catch
                     (Error ''Error''
                        (api_error_prefix @ decimal_digits (int (status response)) @ '' '' @
                         statusText response))
              else
                (case json_body response of
                   Never \<Rightarrow> Never
                 | Throws error \<Rightarrow> search_catch error
                 | Returns data \<Rightarrow>
                     (case read_results data of
                        Inl error \<Rightarrow> search_catch error
                      | Inr results \<Rightarrow>
                          (if falsy results \<or> \<not> isArray results
                           then search_catch (Error ''Error'' malformed_message)
                           else Returns (js_slice0 (elements results) limit))))))"

section \<open>\<^verbatim>\<open>formatResults\<close> (lines 106--127)\<close>

definition scorePercent :: "NoticeResult \<Rightarrow> string" where
  \<comment> \<open>line 115\<close>
  "scorePercent result = toFixed1 (js_times100 (score result))"

definition format_block :: "NoticeResult \<Rightarrow> nat \<Rightarrow> string" where
  \<comment> \<open>the callback of \<^verbatim>\<open>map\<close>, lines 114--123; the template starts with a line break\<close>
  "format_block result index =
     newline @ ''['' @ decimal_digits (int index + 1) @ ''] '' @ title result @
     newline @ ''URL: '' @ url result @
     newline @ organization_label @ organization (metadata result) @
     newline @ region_label @ region (metadata result) @
     newline @ target_label @ startupHistory (metadata result) @
     newline @ similarity_label @ scorePercent result @ ''%''"

definition formatResults :: "NoticeResult list \<Rightarrow> string \<Rightarrow> string" where
  "formatResults results q =
     (if length results = 0 then quote @ q @ quote @ no_results_suffix
      else
        (let header = total_prefix @ decimal_digits (int (length results)) @ found_suffix @
                      newline @ replicate 60 (CHR ''='') @ newline;
             formatted =
               js_join (newline @ newline @ replicate 60 (CHR ''-'') @ newline)
                 (map (\<lambda>(result, index). format_block result index)
                    (zip results [0..<length results]))
         in header @ formatted))"

section \<open>The handler of \<^verbatim>\<open>CallToolRequestSchema\<close> (lines 147--184)\<close>

record call_request =
  name :: string
  arguments :: "json option"

record content_block =
  type :: string
  "text" :: string

record envelope =
  content :: "content_block list"
  isError :: "bool option"

text \<open>
  The handler gives \<^verbatim>\<open>formatResults\<close> the array as it was received. Where every element
  is a \<^typ>\<open>NoticeResult\<close> the call is the typed function above. Where one is not, the
  outcome is decided by the implicit conversions of JavaScript (a missing title prints as
  \<^verbatim>\<open>undefined\<close>, a missing \<^verbatim>\<open>metadata\<close> makes the property read throw), which are not
  part of the program: they are a parameter \<open>co\<close> of the model, and every statement about
  the handler holds for each \<open>co\<close>.
\<close>

type_synonym coercions = "json list \<Rightarrow> string \<Rightarrow> thrown + string"

definition formatResults_received :: "coercions \<Rightarrow> json list \<Rightarrow> string \<Rightarrow> thrown + string" where
  "formatResults_received co results q =
     (case as_NoticeResults results of
        Some rs \<Rightarrow> Inr (formatResults rs q)
      | None \<Rightarrow> co results q)"

definition issue_text :: "issue \<Rightarrow> string" where
  \<comment> \<open>line 155\<close>
  "issue_text e = js_join ''.'' (path e) @ '': '' @ message e"

definition thrown_message :: "thrown \<Rightarrow> string" where
  \<comment> \<open>line 178: \<^verbatim>\<open>error instanceof Error ? error.message : String(error)\<close>\<close>
  "thrown_message error = (case error of Error _ msg \<Rightarrow> msg | NonError s \<Rightarrow> s)"

definition call_tool_try ::
  "coercions \<Rightarrow> call_request \<Rightarrow> remote \<Rightarrow> effect list \<times> envelope outcome" where
  \<comment> \<open>the \<^verbatim>\<open>try\<close> block, lines 149--176\<close>
  "call_tool_try co request net =
     (if name request = ''search_notices'' then
        (case safeParse (arguments request) of
           Inl errors \<Rightarrow>
             ([], Throws (Error ''Error''
                            (invalid_args_prefix @ js_join '', '' (map issue_text errors))))
         | Inr data \<Rightarrow>
             (case searchNotices (query data) (Some (limit data)) net of
                (effects, Never) \<Rightarrow> (effects, Never)
              | (effects, Throws error) \<Rightarrow> (effects, Throws error)
              | (effects, Returns results) \<Rightarrow>
                  (case formatResults_received co results (query data) of
                     Inl error \<Rightarrow> (effects, Throws error)
                   | Inr formatted \<Rightarrow>
                       (effects,
                        Returns \<lparr>content = [\<lparr>type = ''text'', text = formatted\<rparr>],
                                 isError = None\<rparr>))))
      else ([], Throws (Error ''Error'' (unknown_tool_prefix @ name request))))"

definition call_tool_handler ::
  "coercions \<Rightarrow> call_request \<Rightarrow> remote \<Rightarrow> effect list \<times> envelope outcome" where
  \<comment> \<open>the whole handler: the \<^verbatim>\<open>try\<close> block under the \<^verbatim>\<open>catch\<close> of lines 177--183\<close>
  "call_tool_handler co request net =
     (case call_tool_try co request net of
        (effects, Throws error) \<Rightarrow>
          (effects,
           Returns \<lparr>content = [\<lparr>type = ''text'', text = error_prefix @ thrown_message error\<rparr>],
                    isError = Some True\<rparr>)
      | r \<Rightarrow> r)"

section \<open>Notions used to state the properties\<close>

text \<open>The requests among the effects of a call.\<close>

fun requests_of :: "effect list \<Rightarrow> http_request list" where
  "requests_of [] = []"
| "requests_of (Fetch r # es) = r # requests_of es"
| "requests_of (_ # es) = requests_of es"

text \<open>
  The remote call fails with the exception \<open>e\<close>: before the timer fires, either
  \<^verbatim>\<open>fetch\<close> rejects with \<open>e\<close>, or it delivers a response with a success status whose
  body cannot be read, \<^verbatim>\<open>response.json()\<close> rejecting with \<open>e\<close>.
\<close>

definition remote_throws :: "remote \<Rightarrow> thrown \<Rightarrow> bool" where
  "remote_throws net e =
     (latency net < 10000 \<and>
      (case settles net of
         Throws e' \<Rightarrow> e' = e
       | Returns resp \<Rightarrow> ok resp \<and> json_body resp = Throws e
       | Never \<Rightarrow> False))"

text \<open>A JSON value that is an integer Number.\<close>

definition integer_value :: "json \<Rightarrow> bool" where
  "integer_value v = (case v of JNum n \<Rightarrow> is_integer n | _ \<Rightarrow> False)"

text \<open>The properties of an argument object that the schema names.\<close>

definition known_fields :: "(string \<times> json) list \<Rightarrow> (string \<times> json) list" where
  "known_fields kvs = [kv \<leftarrow> kvs. fst kv = ''query'' \<or> fst kv = ''limit'']"

text \<open>
  An instance of the parameter of the handler for the closed examples below. They receive
  typed elements only, so it is never consulted.
\<close>

definition typed_only :: coercions where
  "typed_only results q = Inl (Error ''TypeError'' [])"

text \<open>
  The report in the words of the specification: after the header, one block for each
  result, in the order of the list and numbered from 1, with the divider line between two
  blocks. A block shows the position, the title, the URL, the organization, the region,
  the startup history and the percentage.
\<close>

definition report_divider :: string where
  "report_divider = newline @ newline @ replicate 60 (CHR ''-'') @ newline"

definition report_block :: "nat \<Rightarrow> NoticeResult \<Rightarrow> string" where
  "report_block pos r =
     newline @ ''['' @ decimal_digits (int pos) @ ''] '' @ title r @
     newline @ ''URL: '' @ url r @
     newline @ organization_label @ organization (metadata r) @
     newline @ region_label @ region (metadata r) @
     newline @ target_label @ startupHistory (metadata r) @
     newline @ similarity_label @ scorePercent r @ ''%''"

fun report_blocks :: "nat \<Rightarrow> NoticeResult list \<Rightarrow> string" where
  "report_blocks pos [] = []"
| "report_blocks pos [r] = report_block pos r"
| "report_blocks pos (r # r' # rs) =
     report_block pos r @ report_divider @ report_blocks (Suc pos) (r' # rs)"

text \<open>
  A real number with one decimal digit: the sign, the integer part and one fraction digit
  of the nearest tenth (of the one larger in magnitude, between two).
\<close>

definition fixed1 :: "real \<Rightarrow> string" where
  "fixed1 y =
     (let n = \<lfloor>\<bar>y\<bar> * 10 + 1 / 2\<rfloor>
      in (if y < 0 then ''-'' else '''') @ decimal_digits (n div 10) @ ''.'' @
         [digit_char (n mod 10)])"

definition is_digit :: "char \<Rightarrow> bool" where
  "is_digit c = (c \<in> set ''0123456789'')"

text \<open>A text that is digits, a point and exactly one more digit, after an optional sign.\<close>

definition one_fraction_digit :: "string \<Rightarrow> bool" where
  "one_fraction_digit s =
     (let u = (if take 1 s = ''-'' then drop 1 s else s)
      in 2 < length u \<and> list_all is_digit (butlast (butlast u)) \<and>
         last (butlast u) = CHR ''.'' \<and> is_digit (last u))"

section \<open>Evaluating the arithmetic\<close>

lemma bit_length_0: "bit_length 0 = 0"
  by (simp add: bit_length.simps)

lemma bit_length_1: "bit_length 1 = 1"
  by (simp add: bit_length.simps [of 1] bit_length.simps [of 0])

lemma bit_length_Bit0: "bit_length (numeral (Num.Bit0 k)) = 1 + bit_length (numeral k)"
  by (subst bit_length.simps) simp

lemma bit_length_Bit1: "bit_length (numeral (Num.Bit1 k)) = 1 + bit_length (numeral k)"
  by (subst bit_length.simps) simp

lemmas bit_length_eval = bit_length_0 bit_length_1 bit_length_Bit0 bit_length_Bit1

lemma decimal_digits_small: "n < 10 \<Longrightarrow> decimal_digits n = [digit_char n]"
  by (subst decimal_digits.simps) simp

lemma decimal_digits_large:
  "10 \<le> n \<Longrightarrow> decimal_digits n = decimal_digits (n div 10) @ [digit_char (n mod 10)]"
  by (subst decimal_digits.simps) simp

lemmas decimal_digits_eval = decimal_digits_small decimal_digits_large digit_char_def

lemmas round_binary64_eval =
  round_binary64_def round_binary64_pos_def floor_log2_def pow2_def round_half_even_def Let_def
  bit_length_eval

section \<open>Properties of \<^verbatim>\<open>searchNotices\<close>\<close>

subsection \<open>The paths through the function\<close>

lemma searchNotices_ok:
  assumes "settles net = Returns resp" and "latency net < 10000" and "ok resp"
  shows "searchNotices q la net =
     ([SetTimeout 10000, Fetch (search_request q), ClearTimeout],
      case json_body resp of
        Never \<Rightarrow> Never
      | Throws error \<Rightarrow> search_catch error
      | Returns data \<Rightarrow>
          (case read_results data of
             Inl error \<Rightarrow> search_catch error
           | Inr results \<Rightarrow>
               (if falsy results \<or> \<not> isArray results
                then search_catch (Error ''Error'' malformed_message)
                else Returns (js_slice0 (elements results)
                       (case la of None \<Rightarrow> 5 | Some l \<Rightarrow> l)))))"
  using assms by (simp add: searchNotices_def fetch_with_signal_def Let_def)

lemma searchNotices_rejected:
  assumes "settles net = Throws e" and "latency net < 10000"
  shows "searchNotices q la net = ([SetTimeout 10000, Fetch (search_request q)], search_catch e)"
  using assms by (simp add: searchNotices_def fetch_with_signal_def Let_def)


lemma searchNotices_remote_throws:
  assumes "remote_throws net e"
  shows "snd (searchNotices q la net) = search_catch e"
proof (cases "settles net")
  case (Returns resp)
  with assms show ?thesis
    by (simp add: remote_throws_def searchNotices_ok [of net resp])
next
  case (Throws e')
  with assms show ?thesis
    by (simp add: remote_throws_def searchNotices_rejected [of net e'])
next
  case Never
  with assms show ?thesis by (simp add: remote_throws_def)
qed

lemma js_slice0_take: "0 \<le> l \<Longrightarrow> js_slice0 xs l = take (nat l) xs"
  by (simp add: js_slice0_def Let_def min_def)

subsection \<open>Truncation\<close>

text \<open>
  Claim C1. When the endpoint answers in time with a success status and a body whose
  \<^verbatim>\<open>results\<close> is an array \<open>xs\<close>, and the limit \<open>l\<close> is valid (1 to 50), the call returns
  exactly the first \<open>min l (length xs)\<close> entries of \<open>xs\<close>: a prefix of \<open>xs\<close> in its order,
  never longer than \<open>l\<close>; what lies beyond is dropped and nothing is thrown.
\<close>

theorem searchNotices_returns_prefix:
  assumes "settles net = Returns resp" and "latency net < 10000" and "ok resp"
    and "json_body resp = Returns (JObj kvs)"
    and "map_of kvs ''results'' = Some (JArr xs)"
    and "1 \<le> l" and "l \<le> 50"
  shows "snd (searchNotices q (Some l) net) = Returns (take (min (nat l) (length xs)) xs)
    \<and> prefix (take (min (nat l) (length xs)) xs) xs
    \<and> length (take (min (nat l) (length xs)) xs) \<le> nat l"
proof -
  have "snd (searchNotices q (Some l) net) = Returns (js_slice0 xs l)"
    using assms(4,5)
    by (simp add: searchNotices_ok [OF assms(1-3)] read_results_def falsy_def isArray_def
        elements_def)
  moreover have "js_slice0 xs l = take (min (nat l) (length xs)) xs"
    using assms(6) by (cases "nat l \<le> length xs") (simp_all add: js_slice0_take min_def)
  ultimately show ?thesis
    by (simp add: take_is_prefix)
qed

theorem searchNotices_returns_prefix_witness:
  "snd (searchNotices ''seoul'' (Some 2)
         \<lparr>latency = 120,
            settles = Returns \<lparr>status = 200, statusText = ''OK'',
              json_body =
                Returns (JObj [(''results'', JArr [JStr ''a'', JStr ''b'', JStr ''c''])])\<rparr>\<rparr>)
   = Returns [JStr ''a'', JStr ''b'']"
  using searchNotices_returns_prefix [of
      "\<lparr>latency = 120,
            settles = Returns \<lparr>status = 200, statusText = ''OK'',
              json_body =
                Returns (JObj [(''results'', JArr [JStr ''a'', JStr ''b'', JStr ''c''])])\<rparr>\<rparr>"
      "\<lparr>status = 200, statusText = ''OK'',
              json_body =
                Returns (JObj [(''results'', JArr [JStr ''a'', JStr ''b'', JStr ''c''])])\<rparr>"
      "[(''results'', JArr [JStr ''a'', JStr ''b'', JStr ''c''])]"
      "[JStr ''a'', JStr ''b'', JStr ''c'']" 2 "''seoul''"]
  by (simp add: ok_def)

subsection \<open>Bodies without a list of results\<close>


lemma searchNotices_not_an_array:
  "snd (searchNotices ''seoul'' (Some 5)
         \<lparr>latency = 5,
            settles = Returns \<lparr>status = 200, statusText = ''OK'',
              json_body = Returns (JObj [(''results'', JStr ''not-an-array'')])\<rparr>\<rparr>)
   = Throws (Error ''Error'' malformed_message)"
  by (simp add: searchNotices_def fetch_with_signal_def ok_def Let_def read_results_def
      falsy_def isArray_def search_catch_def)

text \<open>
  Claim C6. The claim asks for the message of line 90 on every body of a success response
  that has no array under \<^verbatim>\<open>results\<close>. The body \<^verbatim>\<open>null\<close> is such a body, and for it
  line 89 throws while reading \<^verbatim>\<open>data.results\<close>: the caller gets the \<^verbatim>\<open>TypeError\<close> of
  the engine, not the message of line 90. (No list is returned for it either.)
\<close>

theorem searchNotices_null_body:
  "snd (searchNotices ''seoul'' (Some 5)
         \<lparr>latency = 5,
            settles = Returns \<lparr>status = 200, statusText = ''OK'', json_body = Returns JNull\<rparr>\<rparr>)
   = Throws (Error ''TypeError''
       (''Cannot read properties of null (reading '' @ [CHR 0x27] @ ''results'' @ [CHR 0x27] @
        '')''))
   \<and> snd (searchNotices ''seoul'' (Some 5)
         \<lparr>latency = 5,
            settles = Returns \<lparr>status = 200, statusText = ''OK'', json_body = Returns JNull\<rparr>\<rparr>)
   \<noteq> Throws (Error ''Error'' malformed_message)"
  by (simp add: searchNotices_def fetch_with_signal_def ok_def Let_def read_results_def
      search_catch_def)

subsection \<open>The timeout\<close>










text \<open>
  The timer covers the request only: line 79 clears it as soon as the response has arrived,
  before line 87 reads the body. A body that stalls is waited for without a limit.
\<close>

lemma searchNotices_body_stall:
  assumes "settles net = Returns resp" and "latency net < 10000" and "ok resp"
    and "json_body resp = Never"
  shows "searchNotices q la net =
           ([SetTimeout 10000, Fetch (search_request q), ClearTimeout], Never)"
  using assms(4) by (simp add: searchNotices_ok [OF assms(1-3)])

subsection \<open>The request\<close>

text \<open>
  Claim C8. Whatever the query, the limit and the network, the call issues exactly one
  request: a POST to \<^verbatim>\<open>https://ai.start-hub.kr/search\<close> with the JSON content type, whose
  body is the object with the single property \<^verbatim>\<open>query\<close>. The limit is not part of it.
\<close>

theorem searchNotices_one_post:
  "requests_of (fst (searchNotices q la net)) =
     [\<lparr>endpoint = ''https://ai.start-hub.kr/search'', method = ''POST'',
       headers = [(''Content-Type'', ''application/json'')],
       body = JObj [(''query'', JStr q)]\<rparr>]"
  by (simp add: searchNotices_def Let_def search_request_def split: outcome.splits)

theorem searchNotices_one_post_witness:
  "requests_of (fst (searchNotices ''seoul'' (Some 50) \<lparr>latency = 3, settles = Never\<rparr>)) =
     [\<lparr>endpoint = ''https://ai.start-hub.kr/search'', method = ''POST'',
       headers = [(''Content-Type'', ''application/json'')],
       body = JObj [(''query'', JStr ''seoul'')]\<rparr>]"
  by (rule searchNotices_one_post)

subsection \<open>Other failures\<close>

text \<open>
  Claim C9, as the code has it. When the remote call fails with an exception that is an
  error object not named \<^verbatim>\<open>AbortError\<close>, the call throws that same error, name and
  message unchanged. When it fails with a value that is not an error object, the call
  throws a new error whose message is the prefix of line 101 followed by the value's
  string form.
\<close>

theorem searchNotices_passes_errors_through:
  "(remote_throws net (Error nm msg) \<and> nm \<noteq> ''AbortError'' \<longrightarrow>
      snd (searchNotices q la net) = Throws (Error nm msg))
   \<and> (remote_throws net (NonError v) \<longrightarrow>
      snd (searchNotices q la net) = Throws (Error ''Error'' (search_error_prefix @ v)))"
proof (intro conjI impI)
  assume "remote_throws net (Error nm msg) \<and> nm \<noteq> ''AbortError''"
  then show "snd (searchNotices q la net) = Throws (Error nm msg)"
    by (simp add: searchNotices_remote_throws [of net "Error nm msg"] search_catch_def)
next
  assume "remote_throws net (NonError v)"
  then show "snd (searchNotices q la net) = Throws (Error ''Error'' (search_error_prefix @ v))"
    by (simp add: searchNotices_remote_throws [of net "NonError v"] search_catch_def)
qed

theorem searchNotices_passes_errors_through_witness:
  "snd (searchNotices ''seoul'' None
         \<lparr>latency = 12, settles = Throws (Error ''TypeError'' ''fetch failed'')\<rparr>)
     = Throws (Error ''TypeError'' ''fetch failed'')
   \<and> snd (searchNotices ''seoul'' None \<lparr>latency = 12, settles = Throws (NonError ''boom'')\<rparr>)
     = Throws (Error ''Error'' (search_error_prefix @ ''boom''))"
  using searchNotices_passes_errors_through [of
      "\<lparr>latency = 12, settles = Throws (Error ''TypeError'' ''fetch failed'')\<rparr>"
      "''TypeError''" "''fetch failed''" "''seoul''" None]
    searchNotices_passes_errors_through [of
      "\<lparr>latency = 12, settles = Throws (NonError ''boom'')\<rparr>" _ _ "''seoul''" None "''boom''"]
  by (simp add: remote_throws_def)

text \<open>
  The claim as it was stated gives the new error the string form alone as its message. A
  rejection with the string \<^verbatim>\<open>boom\<close> shows the difference: the message is not
  \<^verbatim>\<open>boom\<close>.
\<close>

theorem searchNotices_stringified_counterexample:
  "snd (searchNotices ''seoul'' None \<lparr>latency = 12, settles = Throws (NonError ''boom'')\<rparr>)
     \<noteq> Throws (Error ''Error'' ''boom'')"
  by (simp add: searchNotices_rejected search_catch_def search_error_prefix_def)

section \<open>Properties of the schema\<close>

lemma parse_query_Inr: "parse_query v = Inr q \<longleftrightarrow> v = Some (JStr q) \<and> q \<noteq> []"
  by (auto simp add: parse_query_def split: option.splits json.splits)

lemma number_checks_Nil:
  "number_checks n = [] \<longleftrightarrow> is_integer n \<and> \<not> js_less n 1 \<and> \<not> js_greater n 50"
  by (simp add: number_checks_def)

lemma parse_limit_Inr:
  "parse_limit v = Inr l \<longleftrightarrow>
     (v = None \<and> l = 5) \<or> (v = Some (JNum (Fin (of_int l))) \<and> 1 \<le> l \<and> l \<le> 50)"
proof (cases v)
  case None
  then show ?thesis by (auto simp add: parse_limit_def)
next
  case (Some j)
  show ?thesis
  proof (cases j)
    case (JNum n)
    show ?thesis
    proof (cases n)
      case (Fin x)
      have "of_int \<lfloor>x\<rfloor> = x \<and> 1 \<le> x \<and> x \<le> 50 \<and> \<lfloor>x\<rfloor> = l \<longleftrightarrow>
          x = of_int l \<and> 1 \<le> l \<and> l \<le> 50"
        by auto
      with Some JNum Fin show ?thesis
        by (auto simp add: parse_limit_def number_checks_Nil)
    qed (use Some JNum in \<open>simp_all add: parse_limit_def number_checks_def\<close>)
  qed (use Some in \<open>simp_all add: parse_limit_def\<close>)
qed

lemma safeParse_Inr:
  "safeParse (Some (JObj kvs)) = Inr d \<longleftrightarrow>
     parse_query (map_of kvs ''query'') = Inr (query d) \<and>
     parse_limit (map_of kvs ''limit'') = Inr (limit d)"
  by (cases "parse_query (map_of kvs ''query'')"; cases "parse_limit (map_of kvs ''limit'')")
    (auto simp add: safeParse_def)

lemma safeParse_isl:
  "isl (safeParse (Some (JObj kvs))) \<longleftrightarrow>
     isl (parse_query (map_of kvs ''query'')) \<or> isl (parse_limit (map_of kvs ''limit''))"
  by (cases "parse_query (map_of kvs ''query'')"; cases "parse_limit (map_of kvs ''limit'')")
    (simp_all add: safeParse_def)

lemma parse_limit_rejects:
  assumes "v \<noteq> None"
    and "\<And>l. v = Some (JNum (Fin (of_int l))) \<Longrightarrow> l < 1 \<or> 50 < l"
  shows "isl (parse_limit v)"
proof (cases "parse_limit v")
  case (Inl errs)
  then show ?thesis by simp
next
  case (Inr l)
  with assms(1) have "v = Some (JNum (Fin (of_int l)))" and "1 \<le> l" and "l \<le> 50"
    by (auto simp add: parse_limit_Inr)
  with assms(2) [of l] show ?thesis by simp
qed

lemma parse_query_rejects:
  assumes "\<And>q. v = Some (JStr q) \<Longrightarrow> q = []"
  shows "isl (parse_query v)"
proof (cases "parse_query v")
  case (Inl errs)
  then show ?thesis by simp
next
  case (Inr q)
  then have "v = Some (JStr q)" and "q \<noteq> []"
    by (simp_all add: parse_query_Inr)
  with assms [of q] show ?thesis by simp
qed

text \<open>
  Claim C4. An argument object is rejected when its limit is 0, is 51, is any value that is
  not an integer Number, or is an integer outside 1 to 50, and when its query is the empty
  string. It is accepted when its query is a string of length at least 1 and its limit is
  absent, which gives the limit 5, or an integer from 1 to 50, which is kept; the result is
  the request with that query and that limit.
\<close>

theorem safeParse_accepts_and_rejects:
  "(map_of kvs ''limit'' = Some (JNum (Fin 0)) \<longrightarrow> isl (safeParse (Some (JObj kvs))))
   \<and> (map_of kvs ''limit'' = Some (JNum (Fin 51)) \<longrightarrow> isl (safeParse (Some (JObj kvs))))
   \<and> (map_of kvs ''limit'' = Some v \<and> \<not> integer_value v \<longrightarrow>
        isl (safeParse (Some (JObj kvs))))
   \<and> (map_of kvs ''limit'' = Some (JNum (Fin (of_int l'))) \<and> (l' < 1 \<or> 50 < l') \<longrightarrow>
        isl (safeParse (Some (JObj kvs))))
   \<and> (map_of kvs ''query'' = Some (JStr []) \<longrightarrow> isl (safeParse (Some (JObj kvs))))
   \<and> (map_of kvs ''query'' = Some (JStr q) \<and> 1 \<le> length q \<and> map_of kvs ''limit'' = None \<longrightarrow>
        safeParse (Some (JObj kvs)) = Inr \<lparr>query = q, limit = 5\<rparr>)
   \<and> (map_of kvs ''query'' = Some (JStr q) \<and> 1 \<le> length q \<and>
        map_of kvs ''limit'' = Some (JNum (Fin (of_int l))) \<and> 1 \<le> l \<and> l \<le> 50 \<longrightarrow>
        safeParse (Some (JObj kvs)) = Inr \<lparr>query = q, limit = l\<rparr>)"
proof (intro conjI impI)
  assume "map_of kvs ''limit'' = Some (JNum (Fin 0))"
  then have "isl (parse_limit (map_of kvs ''limit''))"
    by (intro parse_limit_rejects) auto
  then show "isl (safeParse (Some (JObj kvs)))"
    by (simp add: safeParse_isl)
next
  assume "map_of kvs ''limit'' = Some (JNum (Fin 51))"
  then have "isl (parse_limit (map_of kvs ''limit''))"
    by (intro parse_limit_rejects) auto
  then show "isl (safeParse (Some (JObj kvs)))"
    by (simp add: safeParse_isl)
next
  assume "map_of kvs ''limit'' = Some v \<and> \<not> integer_value v"
  then have "isl (parse_limit (map_of kvs ''limit''))"
    by (intro parse_limit_rejects) (auto simp add: integer_value_def)
  then show "isl (safeParse (Some (JObj kvs)))"
    by (simp add: safeParse_isl)
next
  assume "map_of kvs ''limit'' = Some (JNum (Fin (of_int l'))) \<and> (l' < 1 \<or> 50 < l')"
  then have "isl (parse_limit (map_of kvs ''limit''))"
    by (intro parse_limit_rejects) auto
  then show "isl (safeParse (Some (JObj kvs)))"
    by (simp add: safeParse_isl)
next
  assume "map_of kvs ''query'' = Some (JStr [])"
  then have "isl (parse_query (map_of kvs ''query''))"
    by (intro parse_query_rejects) simp
  then show "isl (safeParse (Some (JObj kvs)))"
    by (simp add: safeParse_isl)
next
  assume "map_of kvs ''query'' = Some (JStr q) \<and> 1 \<le> length q \<and> map_of kvs ''limit'' = None"
  then show "safeParse (Some (JObj kvs)) = Inr \<lparr>query = q, limit = 5\<rparr>"
    by (auto simp add: safeParse_Inr parse_query_Inr parse_limit_Inr)
next
  assume "map_of kvs ''query'' = Some (JStr q) \<and> 1 \<le> length q \<and>
        map_of kvs ''limit'' = Some (JNum (Fin (of_int l))) \<and> 1 \<le> l \<and> l \<le> 50"
  then show "safeParse (Some (JObj kvs)) = Inr \<lparr>query = q, limit = l\<rparr>"
    by (auto simp add: safeParse_Inr parse_query_Inr parse_limit_Inr)
qed

theorem safeParse_accepts_and_rejects_witness:
  "isl (safeParse (Some (JObj [(''query'', JStr ''seoul''), (''limit'', JNum (Fin 0))])))
   \<and> isl (safeParse (Some (JObj [(''query'', JStr ''seoul''), (''limit'', JNum (Fin 51))])))
   \<and> isl (safeParse (Some (JObj [(''query'', JStr ''seoul''), (''limit'', JNum (Fin (5 / 2)))])))
   \<and> isl (safeParse (Some (JObj [(''query'', JStr ''seoul''), (''limit'', JStr ''5'')])))
   \<and> isl (safeParse (Some (JObj [(''query'', JStr []), (''limit'', JNum (Fin 5))])))
   \<and> safeParse (Some (JObj [(''query'', JStr ''seoul'')]))
       = Inr \<lparr>query = ''seoul'', limit = 5\<rparr>
   \<and> safeParse (Some (JObj [(''query'', JStr ''seoul''), (''limit'', JNum (Fin 50))]))
       = Inr \<lparr>query = ''seoul'', limit = 50\<rparr>"
  using
    safeParse_accepts_and_rejects [of "[(''query'', JStr ''seoul''), (''limit'', JNum (Fin 0))]"]
    safeParse_accepts_and_rejects [of "[(''query'', JStr ''seoul''), (''limit'', JNum (Fin 51))]"]
    safeParse_accepts_and_rejects [of
      "[(''query'', JStr ''seoul''), (''limit'', JNum (Fin (5 / 2)))]" "JNum (Fin (5 / 2))"]
    safeParse_accepts_and_rejects [of "[(''query'', JStr ''seoul''), (''limit'', JStr ''5'')]"
      "JStr ''5''"]
    safeParse_accepts_and_rejects [of "[(''query'', JStr []), (''limit'', JNum (Fin 5))]"]
    safeParse_accepts_and_rejects [of "[(''query'', JStr ''seoul'')]" _ _ "''seoul''"]
    safeParse_accepts_and_rejects [of "[(''query'', JStr ''seoul''), (''limit'', JNum (Fin 50))]"
      _ _ "''seoul''" 50]
  by (simp add: integer_value_def)

section \<open>Properties of \<^verbatim>\<open>formatResults\<close>\<close>

subsection \<open>The blocks\<close>

lemma format_block_report_block: "format_block r i = report_block (Suc i) r"
  by (simp add: format_block_def report_block_def add.commute)

lemma upt_from: "[k..<k + Suc n] = k # [Suc k..<Suc k + n]"
  by (simp add: upt_rec)

lemma js_join_blocks:
  "js_join report_divider
     (map (\<lambda>(result, index). format_block result index) (zip rs [k..<k + length rs]))
   = report_blocks (Suc k) rs"
proof (induction rs arbitrary: k rule: induct_list012)
  case 1
  show ?case by simp
next
  case (2 r)
  show ?case by (simp add: format_block_report_block upt_rec)
next
  case (3 r r' rs)
  have "[k..<k + length (r # r' # rs)] = k # [Suc k..<Suc k + length (r' # rs)]"
    using upt_from [of k "length (r' # rs)"] by simp
  moreover have "[Suc k..<Suc k + length (r' # rs)] =
      Suc k # [Suc (Suc k)..<Suc (Suc k) + length rs]"
    using upt_from [of "Suc k" "length rs"] by simp
  ultimately show ?case
    using "3.IH"(2) [of "Suc k"] by (simp add: format_block_report_block)
qed

lemma formatResults_nonempty:
  assumes "rs \<noteq> []"
  shows "formatResults rs q =
     total_prefix @ decimal_digits (int (length rs)) @ found_suffix @ newline @
     replicate 60 (CHR ''='') @ newline @ report_blocks 1 rs"
  using assms js_join_blocks [of rs 0]
  by (simp add: formatResults_def Let_def report_divider_def)


subsection \<open>One decimal digit\<close>

lemma decimal_digits_not_Nil: "decimal_digits n \<noteq> []"
  by (subst decimal_digits.simps) simp

lemma is_digit_digit_char: "0 \<le> d \<Longrightarrow> d < 10 \<Longrightarrow> is_digit (digit_char d)"
proof -
  assume "0 \<le> d" and "d < 10"
  then have "nat d < length ''0123456789''" by simp
  then have "''0123456789'' ! nat d \<in> set ''0123456789''" by (rule nth_mem)
  then show ?thesis by (simp only: is_digit_def digit_char_def)
qed

lemma decimal_digits_digits: "0 \<le> n \<Longrightarrow> list_all is_digit (decimal_digits n)"
proof (induction n rule: decimal_digits.induct)
  case (1 n)
  show ?case
  proof (cases "n < 10")
    case True
    with "1.prems" show ?thesis
      by (simp add: decimal_digits_small is_digit_digit_char)
  next
    case False
    with "1.prems" "1.IH" show ?thesis
      by (simp add: decimal_digits_large is_digit_digit_char)
  qed
qed

lemma fixed_digits_nonneg:
  assumes "0 \<le> n"
  shows "fixed_digits n = decimal_digits (n div 10) @ ''.'' @ [digit_char (n mod 10)]"
proof (cases "n < 10")
  case True
  with assms have "n div 10 = 0" and "n mod 10 = n" by simp_all
  with True show ?thesis
    by (simp add: fixed_digits_def Let_def decimal_digits_small digit_char_def)
next
  case False
  then have dd: "decimal_digits n = decimal_digits (n div 10) @ [digit_char (n mod 10)]"
    by (simp add: decimal_digits_large)
  have "decimal_digits (n div 10) \<noteq> []" by (rule decimal_digits_not_Nil)
  then have "\<not> length (decimal_digits n) \<le> 1"
    unfolding dd by (cases "decimal_digits (n div 10)") simp_all
  with False show ?thesis
    by (simp add: fixed_digits_def Let_def dd)
qed

lemma toFixed1_fixed1:
  assumes "\<bar>y\<bar> < 10 ^ 21"
  shows "toFixed1 (Fin y) = fixed1 y"
proof (cases "y < 0")
  case True
  then have "\<bar>y\<bar> = - y" by simp
  with True assms show ?thesis
    by (simp add: toFixed1_def fixed1_def Let_def fixed_digits_nonneg)
next
  case False
  then have "\<bar>y\<bar> = y" by simp
  with False assms show ?thesis
    by (simp add: toFixed1_def fixed1_def Let_def fixed_digits_nonneg)
qed

lemma one_fraction_digit_fixed1: "one_fraction_digit (fixed1 y)"
proof -
  define n where "n = \<lfloor>\<bar>y\<bar> * 10 + 1 / 2\<rfloor>"
  define w where "w = decimal_digits (n div 10)"
  have n0: "0 \<le> n" by (simp add: n_def)
  then have w: "list_all is_digit w" and d: "is_digit (digit_char (n mod 10))"
    by (simp_all add: w_def decimal_digits_digits is_digit_digit_char pos_imp_zdiv_nonneg_iff)
  have wne: "w \<noteq> []" by (simp add: w_def decimal_digits_not_Nil)
  from w wne have nosign: "take 1 w \<noteq> ''-''"
    by (cases w) (auto simp add: is_digit_def)
  have body: "one_fraction_digit (w @ ''.'' @ [digit_char (n mod 10)])"
    using w d wne nosign
    by (cases w) (simp_all add: one_fraction_digit_def Let_def butlast_append)
  have neg: "one_fraction_digit (''-'' @ w @ ''.'' @ [digit_char (n mod 10)])"
    using w d wne
    by (simp add: one_fraction_digit_def Let_def butlast_append)
  show ?thesis
    using body neg by (simp add: fixed1_def n_def [symmetric] w_def [symmetric] Let_def)
qed


subsection \<open>The product stays in range\<close>

lemma bit_length_nonneg: "0 \<le> bit_length a"
  by (induction a rule: bit_length.induct) (subst bit_length.simps, simp)

lemma bit_length_pos: "0 < a \<Longrightarrow> 1 \<le> bit_length a"
  using bit_length_nonneg [of "a div 2"] by (subst bit_length.simps) simp

lemma bit_length_lower: "0 < a \<Longrightarrow> 2 ^ nat (bit_length a - 1) \<le> a"
proof (induction a rule: bit_length.induct)
  case (1 a)
  show ?case
  proof (cases "a = 1")
    case True
    then show ?thesis by (simp add: bit_length_1)
  next
    case False
    with "1.prems" have half: "0 < a div 2" by simp
    with "1.IH" "1.prems" have ih: "2 ^ nat (bit_length (a div 2) - 1) \<le> a div 2" by simp
    have "bit_length a - 1 = bit_length (a div 2)"
      using "1.prems" by (subst bit_length.simps) simp
    moreover have "nat (bit_length (a div 2)) = Suc (nat (bit_length (a div 2) - 1))"
      using bit_length_pos [OF half] by simp
    ultimately have "(2::int) ^ nat (bit_length a - 1) = 2 * 2 ^ nat (bit_length (a div 2) - 1)"
      by simp
    also have "\<dots> \<le> 2 * (a div 2)" using ih by simp
    also have "\<dots> \<le> a" by simp
    finally show ?thesis .
  qed
qed

lemma pow2_pos: "0 < pow2 k"
  by (simp add: pow2_def)

lemma pow2_nonpos_le_1: "k \<le> 0 \<Longrightarrow> pow2 k \<le> 1"
  by (simp add: pow2_def field_simps)

lemma pow2_diff: "pow2 (k - 52) = pow2 k / 2 ^ 52"
proof -
  have "pow2 j = 2 powi j" for j
    by (simp add: pow2_def power_int_def power_one_over inverse_eq_divide)
  then show ?thesis
    by (simp add: power_int_diff)
qed

lemma floor_log2_upper:
  assumes "0 < x"
  shows "pow2 (floor_log2 x) \<le> max x 1"
proof (cases "1 \<le> x")
  case True
  then have pos: "0 < \<lfloor>x\<rfloor>" by simp
  have e: "0 \<le> bit_length \<lfloor>x\<rfloor> - 1" using bit_length_pos [OF pos] by simp
  have "pow2 (floor_log2 x) = of_int (2 ^ nat (bit_length \<lfloor>x\<rfloor> - 1))"
    using True e by (simp add: floor_log2_def pow2_def)
  also have "\<dots> \<le> of_int \<lfloor>x\<rfloor>"
    using bit_length_lower [OF pos] by (simp only: of_int_le_iff)
  also have "\<dots> \<le> x" by simp
  finally show ?thesis by simp
next
  case False
  then have "floor_log2 x \<le> 0"
    using bit_length_nonneg [of "\<lceil>1 / x\<rceil> - 1"] by (simp add: floor_log2_def)
  then have "pow2 (floor_log2 x) \<le> 1" by (rule pow2_nonpos_le_1)
  then show ?thesis by simp
qed

lemma round_half_even_bounds:
  "of_int (round_half_even q) \<le> q + 1 / 2" "0 \<le> q \<Longrightarrow> 0 \<le> round_half_even q"
proof -
  have "of_int \<lfloor>q\<rfloor> \<le> q" by simp
  then show "of_int (round_half_even q) \<le> q + 1 / 2"
    by (auto simp add: round_half_even_def Let_def simp del: of_int_floor_le)
  assume "0 \<le> q"
  then have "0 \<le> \<lfloor>q\<rfloor>" by simp
  then show "0 \<le> round_half_even q"
    by (auto simp add: round_half_even_def Let_def)
qed

lemma round_binary64_pos_bounded:
  assumes "0 < x" and "x \<le> 10 ^ 20"
  shows "\<exists>y. round_binary64_pos x = Fin y \<and> 0 \<le> y \<and> y < 10 ^ 21"
proof -
  define e where "e = max (floor_log2 x) (- 1022)"
  define ulp where "ulp = pow2 (e - 52)"
  define y where "y = of_int (round_half_even (x / ulp)) * ulp"
  have ulp_pos: "0 < ulp" by (simp add: ulp_def pow2_pos)
  have "pow2 (- 1022) \<le> 1" by (rule pow2_nonpos_le_1) simp
  with floor_log2_upper [OF assms(1)] have "pow2 e \<le> max x 1"
    by (simp add: e_def max_def split: if_splits)
  with assms(2) have "pow2 e \<le> 10 ^ 20" by (simp add: max_def split: if_splits)
  then have ulp_le: "ulp \<le> 10 ^ 20 / 2 ^ 52"
    by (simp add: ulp_def pow2_diff divide_right_mono)
  have "y \<le> (x / ulp + 1 / 2) * ulp"
    unfolding y_def using round_half_even_bounds(1) [of "x / ulp"] ulp_pos
    by (intro mult_right_mono) simp_all
  also have "\<dots> = x + ulp / 2" using ulp_pos by (simp add: field_simps)
  also have "\<dots> \<le> 10 ^ 20 + (10 ^ 20 / 2 ^ 52) / 2" using assms(2) ulp_le by simp
  also have "\<dots> < 10 ^ 21" by simp
  finally have upper: "y < 10 ^ 21" .
  have "0 \<le> x / ulp" using assms(1) ulp_pos by simp
  then have lower: "0 \<le> y"
    unfolding y_def using round_half_even_bounds(2) ulp_pos by simp
  have "(10::real) ^ 21 < 2 ^ 1024" by simp
  with upper have "\<not> pow2 1024 \<le> y" by (simp add: pow2_def)
  then have "round_binary64_pos x = Fin y"
    by (simp add: round_binary64_pos_def Let_def e_def ulp_def y_def)
  with lower upper show ?thesis by blast
qed

lemma js_times100_bounded:
  assumes "\<bar>s\<bar> \<le> 10 ^ 18"
  shows "\<exists>y. js_times100 (Fin s) = Fin y \<and> \<bar>y\<bar> < 10 ^ 21"
proof -
  have le: "\<bar>s * 100\<bar> \<le> 10 ^ 20" using assms by (simp add: abs_mult)
  consider "s = 0" | "0 < s" | "s < 0" by linarith
  then show ?thesis
  proof cases
    case 1
    then show ?thesis by (simp add: round_binary64_def)
  next
    case 2
    with le have "0 < s * 100" "s * 100 \<le> 10 ^ 20" by simp_all
    from round_binary64_pos_bounded [OF this] 2 show ?thesis
      by (auto simp add: round_binary64_def)
  next
    case 3
    with le have "0 < - (s * 100)" "- (s * 100) \<le> 10 ^ 20" by simp_all
    from round_binary64_pos_bounded [OF this] 3 show ?thesis
      by (auto simp add: round_binary64_def)
  qed
qed


subsection \<open>The report\<close>

lemma double_0873:
  "round_binary64 (873 / 1000) = Fin (3931642474694443 / 4503599627370496)"
  by (simp add: round_binary64_eval)

lemma times100_0873:
  "js_times100 (Fin (3931642474694443 / 4503599627370496)) =
     Fin (6143191366710067 / 70368744177664)"
  by (simp add: round_binary64_eval)

lemma fixed1_873: "fixed1 (6143191366710067 / 70368744177664) = ''87.3''"
  by (simp add: fixed1_def Let_def decimal_digits_eval)

text \<open>
  Claim C5, as the code has it. For an empty list the report is the query between double
  quotes followed by the text of line 108, and nothing else. For a list that is not empty
  it is the header with the count, then one block for each result, in the order of the
  list and numbered from 1, none left out, with the divider line between two blocks; each
  block shows the position, the title, the URL, the organization, the region, the startup
  history and the percentage. The percentage is the score times 100, not clamped and not
  checked, printed by \<^verbatim>\<open>toFixed(1)\<close>: with exactly one decimal digit whenever that
  product is finite and below \<open>10 ^ 21\<close> in magnitude, as it is for every finite score up
  to \<open>10 ^ 18\<close> in magnitude, so for all of the interval from 0 to 1.
\<close>

theorem formatResults_report:
  "formatResults [] q = quote @ q @ quote @ no_results_suffix
   \<and> (rs \<noteq> [] \<longrightarrow>
        formatResults rs q =
          total_prefix @ decimal_digits (int (length rs)) @ found_suffix @ newline @
          replicate 60 (CHR ''='') @ newline @ report_blocks 1 rs)
   \<and> (js_times100 (score r) = Fin y \<and> \<bar>y\<bar> < 10 ^ 21 \<longrightarrow>
        scorePercent r = fixed1 y \<and> one_fraction_digit (scorePercent r))
   \<and> (score r = Fin s \<and> \<bar>s\<bar> \<le> 10 ^ 18 \<longrightarrow>
        (\<exists>y. js_times100 (score r) = Fin y \<and> \<bar>y\<bar> < 10 ^ 21))"
proof (intro conjI impI)
  show "formatResults [] q = quote @ q @ quote @ no_results_suffix"
    by (simp add: formatResults_def)
next
  assume "rs \<noteq> []"
  then show "formatResults rs q =
          total_prefix @ decimal_digits (int (length rs)) @ found_suffix @ newline @
          replicate 60 (CHR ''='') @ newline @ report_blocks 1 rs"
    by (rule formatResults_nonempty)
next
  assume "js_times100 (score r) = Fin y \<and> \<bar>y\<bar> < 10 ^ 21"
  then show "scorePercent r = fixed1 y"
    by (simp add: scorePercent_def toFixed1_fixed1)
  then show "one_fraction_digit (scorePercent r)"
    by (simp add: one_fraction_digit_fixed1)
next
  assume "score r = Fin s \<and> \<bar>s\<bar> \<le> 10 ^ 18"
  then show "\<exists>y. js_times100 (score r) = Fin y \<and> \<bar>y\<bar> < 10 ^ 21"
    using js_times100_bounded [of s] by simp
qed

text \<open>
  The example of the specification: the score is the Number nearest to 0.873, and the
  percentage is 87.3.
\<close>

theorem formatResults_report_witness:
  "formatResults
     [\<lparr>title = ''Grant A'', url = ''http://x'', score = round_binary64 (873 / 1000),
        metadata = \<lparr>organization = ''Org'', region = ''Seoul'', startupHistory = ''2yr''\<rparr>\<rparr>]
     ''grants''
   = total_prefix @ ''1'' @ found_suffix @ newline @ replicate 60 (CHR ''='') @ newline @
     newline @ ''[1] Grant A'' @
     newline @ ''URL: http://x'' @
     newline @ organization_label @ ''Org'' @
     newline @ region_label @ ''Seoul'' @
     newline @ target_label @ ''2yr'' @
     newline @ similarity_label @ ''87.3%''"
  using formatResults_report [where rs = "[\<lparr>title = ''Grant A'', url = ''http://x'',
        score = round_binary64 (873 / 1000),
        metadata = \<lparr>organization = ''Org'', region = ''Seoul'', startupHistory = ''2yr''\<rparr>\<rparr>]"
      and q = "''grants''"
      and r = "\<lparr>title = ''Grant A'', url = ''http://x'',
        score = round_binary64 (873 / 1000),
        metadata = \<lparr>organization = ''Org'', region = ''Seoul'', startupHistory = ''2yr''\<rparr>\<rparr>"
      and y = "6143191366710067 / 70368744177664"
      and s = "3931642474694443 / 4503599627370496", THEN conjunct2]
  by (simp add: round_binary64_eval fixed1_873 report_block_def decimal_digits_eval)

text \<open>
  The claim as it was stated promises one decimal digit for every list. A score can be any
  Number: the JSON text \<^verbatim>\<open>1e999\<close> is read as \<^verbatim>\<open>Infinity\<close>, and the percentage is then
  the word \<^verbatim>\<open>Infinity\<close>.
\<close>

theorem formatResults_infinite_score_counterexample:
  "formatResults
     [\<lparr>title = ''Grant A'', url = ''http://x'', score = PosInf,
        metadata = \<lparr>organization = ''Org'', region = ''Seoul'', startupHistory = ''2yr''\<rparr>\<rparr>]
     ''grants''
   = total_prefix @ ''1'' @ found_suffix @ newline @ replicate 60 (CHR ''='') @ newline @
     newline @ ''[1] Grant A'' @
     newline @ ''URL: http://x'' @
     newline @ organization_label @ ''Org'' @
     newline @ region_label @ ''Seoul'' @
     newline @ target_label @ ''2yr'' @
     newline @ similarity_label @ ''Infinity%''
   \<and> \<not> one_fraction_digit ''Infinity''"
  by (simp add: formatResults_def Let_def format_block_def scorePercent_def toFixed1_def
      decimal_digits_eval one_fraction_digit_def is_digit_def)

section \<open>Properties of the handler\<close>

subsection \<open>The paths through the handler\<close>

lemma call_tool_try_unknown:
  assumes "name req \<noteq> ''search_notices''"
  shows "call_tool_try co req net =
           ([], Throws (Error ''Error'' (unknown_tool_prefix @ name req)))"
  using assms by (simp add: call_tool_try_def)

lemma call_tool_try_invalid:
  assumes "name req = ''search_notices''" and "safeParse (arguments req) = Inl errs"
  shows "call_tool_try co req net =
           ([], Throws (Error ''Error''
                  (invalid_args_prefix @ js_join '', '' (map issue_text errs))))"
  using assms by (simp add: call_tool_try_def)

lemma call_tool_try_valid:
  assumes "name req = ''search_notices''" and "safeParse (arguments req) = Inr d"
  shows "call_tool_try co req net =
           (fst (searchNotices (query d) (Some (limit d)) net),
            case snd (searchNotices (query d) (Some (limit d)) net) of
              Never \<Rightarrow> Never
            | Throws e \<Rightarrow> Throws e
            | Returns results \<Rightarrow>
                (case formatResults_received co results (query d) of
                   Inl e \<Rightarrow> Throws e
                 | Inr formatted \<Rightarrow>
                     Returns \<lparr>content = [\<lparr>type = ''text'', text = formatted\<rparr>],
                              isError = None\<rparr>))"
  using assms
  by (cases "searchNotices (query d) (Some (limit d)) net")
    (simp add: call_tool_try_def split: outcome.splits sum.splits)

lemma call_tool_handler_snd:
  "snd (call_tool_handler co req net) =
     (case snd (call_tool_try co req net) of
        Throws e \<Rightarrow>
          Returns \<lparr>content = [\<lparr>type = ''text'', text = error_prefix @ thrown_message e\<rparr>],
                   isError = Some True\<rparr>
      | r \<Rightarrow> r)"
  by (cases "call_tool_try co req net")
    (simp add: call_tool_handler_def split: outcome.splits)

lemma call_tool_handler_fst:
  "fst (call_tool_handler co req net) = fst (call_tool_try co req net)"
  by (cases "call_tool_try co req net")
    (simp add: call_tool_handler_def split: outcome.splits)

subsection \<open>Errors end in an envelope\<close>

text \<open>
  Claim C3. The handler never throws. Whatever the \<^verbatim>\<open>try\<close> block throws is turned into
  an envelope with \<^verbatim>\<open>isError: true\<close> and the single text block made of the prefix of line
  180 and the message: for a tool name other than \<^verbatim>\<open>search_notices\<close> the message of line
  176, which names the tool; for arguments that fail validation the message of line 157
  with every issue; for a failure of \<^verbatim>\<open>searchNotices\<close> or of the formatting the message
  of what was thrown. In the first two cases nothing is sent to the network.
\<close>

theorem call_tool_handler_catches:
  "snd (call_tool_handler co req net) \<noteq> Throws e
   \<and> (snd (call_tool_try co req net) = Throws e \<longrightarrow>
        snd (call_tool_handler co req net) =
          Returns \<lparr>content = [\<lparr>type = ''text'', text = error_prefix @ thrown_message e\<rparr>],
                   isError = Some True\<rparr>)
   \<and> (name req \<noteq> ''search_notices'' \<longrightarrow>
        call_tool_handler co req net =
          ([], Returns \<lparr>content = [\<lparr>type = ''text'',
                  text = error_prefix @ unknown_tool_prefix @ name req\<rparr>],
                isError = Some True\<rparr>))
   \<and> (name req = ''search_notices'' \<and> safeParse (arguments req) = Inl errs \<longrightarrow>
        call_tool_handler co req net =
          ([], Returns \<lparr>content = [\<lparr>type = ''text'',
                  text = error_prefix @ invalid_args_prefix @
                         js_join '', '' (map issue_text errs)\<rparr>],
                isError = Some True\<rparr>))
   \<and> (name req = ''search_notices'' \<and> safeParse (arguments req) = Inr d \<and>
        snd (searchNotices (query d) (Some (limit d)) net) = Throws e \<longrightarrow>
        snd (call_tool_handler co req net) =
          Returns \<lparr>content = [\<lparr>type = ''text'', text = error_prefix @ thrown_message e\<rparr>],
                   isError = Some True\<rparr>)
   \<and> (name req = ''search_notices'' \<and> safeParse (arguments req) = Inr d \<and>
        snd (searchNotices (query d) (Some (limit d)) net) = Returns results \<and>
        formatResults_received co results (query d) = Inl e \<longrightarrow>
        snd (call_tool_handler co req net) =
          Returns \<lparr>content = [\<lparr>type = ''text'', text = error_prefix @ thrown_message e\<rparr>],
                   isError = Some True\<rparr>)"
proof (intro conjI impI)
  show "snd (call_tool_handler co req net) \<noteq> Throws e"
    by (simp add: call_tool_handler_snd split: outcome.splits)
next
  assume "snd (call_tool_try co req net) = Throws e"
  then show "snd (call_tool_handler co req net) =
          Returns \<lparr>content = [\<lparr>type = ''text'', text = error_prefix @ thrown_message e\<rparr>],
                   isError = Some True\<rparr>"
    by (simp add: call_tool_handler_snd)
next
  assume "name req \<noteq> ''search_notices''"
  then show "call_tool_handler co req net =
          ([], Returns \<lparr>content = [\<lparr>type = ''text'',
                  text = error_prefix @ unknown_tool_prefix @ name req\<rparr>],
                isError = Some True\<rparr>)"
    by (simp add: call_tool_handler_def call_tool_try_unknown thrown_message_def)
next
  assume "name req = ''search_notices'' \<and> safeParse (arguments req) = Inl errs"
  then show "call_tool_handler co req net =
          ([], Returns \<lparr>content = [\<lparr>type = ''text'',
                  text = error_prefix @ invalid_args_prefix @
                         js_join '', '' (map issue_text errs)\<rparr>],
                isError = Some True\<rparr>)"
    by (simp add: call_tool_handler_def call_tool_try_invalid [of req errs] thrown_message_def)
next
  assume "name req = ''search_notices'' \<and> safeParse (arguments req) = Inr d \<and>
        snd (searchNotices (query d) (Some (limit d)) net) = Throws e"
  then show "snd (call_tool_handler co req net) =
          Returns \<lparr>content = [\<lparr>type = ''text'', text = error_prefix @ thrown_message e\<rparr>],
                   isError = Some True\<rparr>"
    by (simp add: call_tool_handler_snd call_tool_try_valid [of req d])
next
  assume "name req = ''search_notices'' \<and> safeParse (arguments req) = Inr d \<and>
        snd (searchNotices (query d) (Some (limit d)) net) = Returns results \<and>
        formatResults_received co results (query d) = Inl e"
  then show "snd (call_tool_handler co req net) =
          Returns \<lparr>content = [\<lparr>type = ''text'', text = error_prefix @ thrown_message e\<rparr>],
                   isError = Some True\<rparr>"
    by (simp add: call_tool_handler_snd call_tool_try_valid [of req d])
qed

theorem call_tool_handler_catches_witness:
  "call_tool_handler typed_only \<lparr>name = ''delete_all'', arguments = None\<rparr>
       \<lparr>latency = 1, settles = Never\<rparr>
     = ([], Returns \<lparr>content = [\<lparr>type = ''text'',
              text = error_prefix @ unknown_tool_prefix @ ''delete_all''\<rparr>],
            isError = Some True\<rparr>)
   \<and> call_tool_handler typed_only
       \<lparr>name = ''search_notices'',
          arguments = Some (JObj [(''query'', JStr []), (''limit'', JNum (Fin 51))])\<rparr>
       \<lparr>latency = 1, settles = Never\<rparr>
     = ([], Returns \<lparr>content = [\<lparr>type = ''text'',
              text = error_prefix @ invalid_args_prefix @ ''query: '' @ query_empty_message @
                     '', limit: Number must be less than or equal to 50''\<rparr>],
            isError = Some True\<rparr>)
   \<and> snd (call_tool_handler typed_only
         \<lparr>name = ''search_notices'', arguments = Some (JObj [(''query'', JStr ''seoul'')])\<rparr>
         \<lparr>latency = 30, settles = Returns \<lparr>status = 503,
            statusText = ''Service Unavailable'', json_body = Never\<rparr>\<rparr>)
     = Returns \<lparr>content = [\<lparr>type = ''text'',
           text = error_prefix @ api_error_prefix @ ''503 Service Unavailable''\<rparr>],
         isError = Some True\<rparr>"
  using
    call_tool_handler_catches [where req = "\<lparr>name = ''delete_all'', arguments = None\<rparr>"
      and co = typed_only and net = "\<lparr>latency = 1, settles = Never\<rparr>"]
    call_tool_handler_catches [where req = "\<lparr>name = ''search_notices'',
          arguments = Some (JObj [(''query'', JStr []), (''limit'', JNum (Fin 51))])\<rparr>"
      and co = typed_only and net = "\<lparr>latency = 1, settles = Never\<rparr>"
      and errs = "[\<lparr>path = [''query''], message = query_empty_message\<rparr>,
                   \<lparr>path = [''limit''],
                      message = ''Number must be less than or equal to 50''\<rparr>]"]
    call_tool_handler_catches [where req = "\<lparr>name = ''search_notices'',
          arguments = Some (JObj [(''query'', JStr ''seoul'')])\<rparr>"
      and co = typed_only
      and net = "\<lparr>latency = 30, settles = Returns \<lparr>status = 503,
            statusText = ''Service Unavailable'', json_body = Never\<rparr>\<rparr>"
      and d = "\<lparr>query = ''seoul'', limit = 5\<rparr>"
      and e = "Error ''Error'' (api_error_prefix @ ''503 Service Unavailable'')"]
  by (simp add: safeParse_def parse_query_def parse_limit_def number_checks_def issues_of_def
      issue_text_def searchNotices_def fetch_with_signal_def ok_def Let_def search_catch_def
      thrown_message_def decimal_digits_eval)

subsection \<open>The envelope of a success\<close>

text \<open>
  Claim C2, as the code has it. When the validation, the remote call and the formatting all
  succeed, the handler returns the envelope of lines 166--173: its content is the single
  block of type \<^verbatim>\<open>text\<close> holding the formatted report (for typed results, what
  \<^verbatim>\<open>formatResults\<close> returns), and it has no \<^verbatim>\<open>isError\<close> property at all.
\<close>

theorem call_tool_success_envelope:
  assumes "name req = ''search_notices''" and "safeParse (arguments req) = Inr d"
    and "snd (searchNotices (query d) (Some (limit d)) net) = Returns results"
    and "formatResults_received co results (query d) = Inr formatted"
  shows "snd (call_tool_handler co req net) =
           Returns \<lparr>content = [\<lparr>type = ''text'', text = formatted\<rparr>], isError = None\<rparr>
    \<and> (\<forall>rs. as_NoticeResults results = Some rs \<longrightarrow> formatted = formatResults rs (query d))"
  using assms(3,4)
  by (auto simp add: call_tool_handler_snd call_tool_try_valid [OF assms(1,2)]
      formatResults_received_def)


text \<open>
  A search for two notices answered with three: the envelope holds the report of the first
  two.
\<close>

theorem call_tool_success_envelope_witness:
  "snd (call_tool_handler typed_only
         \<lparr>name = ''search_notices'',
            arguments = Some (JObj [(''query'', JStr ''Seoul accelerator''),
                                    (''limit'', JNum (Fin 2))])\<rparr>
         \<lparr>latency = 30, settles = Returns \<lparr>status = 200, statusText = ''OK'',
            json_body = Returns (JObj [(''results'', JArr
              [JObj [(''title'', JStr ''A''), (''url'', JStr ''http://a''),
                     (''score'', JNum (Fin (3 / 4))),
                     (''metadata'', JObj [(''organization'', JStr ''Org''),
                        (''region'', JStr ''Seoul''), (''startupHistory'', JStr ''2yr'')])],
               JObj [(''title'', JStr ''B''), (''url'', JStr ''http://b''),
                     (''score'', JNum (Fin (1 / 2))),
                     (''metadata'', JObj [(''organization'', JStr ''Org''),
                        (''region'', JStr ''Busan''), (''startupHistory'', JStr ''1yr'')])],
               JObj [(''title'', JStr ''C''), (''url'', JStr ''http://c''),
                     (''score'', JNum (Fin (1 / 4))),
                     (''metadata'', JObj [(''organization'', JStr ''Org''),
                        (''region'', JStr ''Jeju''), (''startupHistory'', JStr ''3yr'')])]])])\<rparr>\<rparr>)
     = Returns \<lparr>content = [\<lparr>type = ''text'',
           text = formatResults
             [\<lparr>title = ''A'', url = ''http://a'', score = Fin (3 / 4),
                 metadata = \<lparr>organization = ''Org'', region = ''Seoul'',
                   startupHistory = ''2yr''\<rparr>\<rparr>,
              \<lparr>title = ''B'', url = ''http://b'', score = Fin (1 / 2),
                 metadata = \<lparr>organization = ''Org'', region = ''Busan'',
                   startupHistory = ''1yr''\<rparr>\<rparr>]
             ''Seoul accelerator''\<rparr>],
         isError = None\<rparr>"
  using call_tool_success_envelope [where req = "\<lparr>name = ''search_notices'',
            arguments = Some (JObj [(''query'', JStr ''Seoul accelerator''),
                                    (''limit'', JNum (Fin 2))])\<rparr>"
      and co = typed_only
      and net = "\<lparr>latency = 30, settles = Returns \<lparr>status = 200, statusText = ''OK'',
            json_body = Returns (JObj [(''results'', JArr
              [JObj [(''title'', JStr ''A''), (''url'', JStr ''http://a''),
                     (''score'', JNum (Fin (3 / 4))),
                     (''metadata'', JObj [(''organization'', JStr ''Org''),
                        (''region'', JStr ''Seoul''), (''startupHistory'', JStr ''2yr'')])],
               JObj [(''title'', JStr ''B''), (''url'', JStr ''http://b''),
                     (''score'', JNum (Fin (1 / 2))),
                     (''metadata'', JObj [(''organization'', JStr ''Org''),
                        (''region'', JStr ''Busan''), (''startupHistory'', JStr ''1yr'')])],
               JObj [(''title'', JStr ''C''), (''url'', JStr ''http://c''),
                     (''score'', JNum (Fin (1 / 4))),
                     (''metadata'', JObj [(''organization'', JStr ''Org''),
                        (''region'', JStr ''Jeju''), (''startupHistory'', JStr ''3yr'')])]])])\<rparr>\<rparr>"
      and d = "\<lparr>query = ''Seoul accelerator'', limit = 2\<rparr>"
      and results = "[JObj [(''title'', JStr ''A''), (''url'', JStr ''http://a''),
                     (''score'', JNum (Fin (3 / 4))),
                     (''metadata'', JObj [(''organization'', JStr ''Org''),
                        (''region'', JStr ''Seoul''), (''startupHistory'', JStr ''2yr'')])],
               JObj [(''title'', JStr ''B''), (''url'', JStr ''http://b''),
                     (''score'', JNum (Fin (1 / 2))),
                     (''metadata'', JObj [(''organization'', JStr ''Org''),
                        (''region'', JStr ''Busan''), (''startupHistory'', JStr ''1yr'')])]]"
      and formatted = "formatResults
             [\<lparr>title = ''A'', url = ''http://a'', score = Fin (3 / 4),
                 metadata = \<lparr>organization = ''Org'', region = ''Seoul'',
                   startupHistory = ''2yr''\<rparr>\<rparr>,
              \<lparr>title = ''B'', url = ''http://b'', score = Fin (1 / 2),
                 metadata = \<lparr>organization = ''Org'', region = ''Busan'',
                   startupHistory = ''1yr''\<rparr>\<rparr>]
             ''Seoul accelerator''", THEN conjunct1]
  by (simp add: safeParse_def parse_query_def parse_limit_def number_checks_def
      searchNotices_def fetch_with_signal_def ok_def Let_def read_results_def falsy_def
      isArray_def elements_def js_slice0_def formatResults_received_def as_NoticeResult_def
      as_string_def as_number_def as_metadata_def)

text \<open>
  The claim as it was stated gives the envelope the property \<^verbatim>\<open>isError: false\<close>. A search
  that succeeds with no results shows the difference.
\<close>

theorem call_tool_success_isError_counterexample:
  "snd (call_tool_handler typed_only
         \<lparr>name = ''search_notices'', arguments = Some (JObj [(''query'', JStr ''seoul'')])\<rparr>
         \<lparr>latency = 30, settles = Returns \<lparr>status = 200, statusText = ''OK'',
            json_body = Returns (JObj [(''results'', JArr [])])\<rparr>\<rparr>)
     \<noteq> Returns \<lparr>content = [\<lparr>type = ''text'',
           text = quote @ ''seoul'' @ quote @ no_results_suffix\<rparr>],
         isError = Some False\<rparr>"
  by (simp add: call_tool_handler_def call_tool_try_def safeParse_def parse_query_def
      parse_limit_def searchNotices_def fetch_with_signal_def ok_def Let_def read_results_def
      falsy_def isArray_def elements_def js_slice0_def formatResults_received_def
      formatResults_def)

subsection \<open>Unknown fields\<close>

lemma map_of_known_fields:
  "k = ''query'' \<or> k = ''limit'' \<Longrightarrow> map_of (known_fields kvs) k = map_of kvs k"
  by (induction kvs) (auto simp add: known_fields_def)

lemma safeParse_known_fields:
  "safeParse (Some (JObj (known_fields kvs))) = safeParse (Some (JObj kvs))"
  by (simp add: safeParse_def map_of_known_fields)

lemma parse_query_paths:
  "parse_query v = Inl errs \<Longrightarrow> e \<in> set errs \<Longrightarrow> path e = [''query'']"
  by (auto simp add: parse_query_def invalid_type_def
      split: option.splits json.splits if_splits)

lemma number_checks_paths: "e \<in> set (number_checks n) \<Longrightarrow> path e = [''limit'']"
  by (auto simp add: number_checks_def split: if_splits)

lemma parse_limit_paths:
  "parse_limit v = Inl errs \<Longrightarrow> e \<in> set errs \<Longrightarrow> path e = [''limit'']"
  by (auto simp add: parse_limit_def invalid_type_def number_checks_paths
      split: option.splits json.splits if_splits)

lemma safeParse_paths:
  assumes "safeParse (Some (JObj kvs)) = Inl errs" and "e \<in> set errs"
  shows "path e = [''query''] \<or> path e = [''limit'']"
proof -
  from assms(1) have "errs = issues_of (parse_query (map_of kvs ''query'')) @
      issues_of (parse_limit (map_of kvs ''limit''))"
    by (auto simp add: safeParse_def split: sum.splits)
  with assms(2) show ?thesis
    by (auto simp add: issues_of_def parse_query_paths parse_limit_paths split: sum.splits)
qed


lemma call_tool_handler_known_fields:
  "call_tool_handler co \<lparr>name = n, arguments = Some (JObj (known_fields kvs))\<rparr> net =
   call_tool_handler co \<lparr>name = n, arguments = Some (JObj kvs)\<rparr> net"
  by (simp add: call_tool_handler_def call_tool_try_def safeParse_known_fields)

lemma requests_of_searchNotices: "requests_of (fst (searchNotices q la net)) = [search_request q]"
  by (simp add: searchNotices_def Let_def split: outcome.splits)

text \<open>
  Claim C10. Properties that the schema does not name change nothing: the arguments parse
  as the object without them does, and the handler does with them what it does without
  them. No issue is ever about such a property. So an object with a valid query, a valid
  or absent limit and any further properties is accepted, the request that results holds
  the query and the limit only, and the request sent to the endpoint holds the query only.
\<close>

theorem safeParse_strips_unknown_fields:
  "safeParse (Some (JObj kvs)) = safeParse (Some (JObj (known_fields kvs)))
   \<and> call_tool_handler co \<lparr>name = n, arguments = Some (JObj kvs)\<rparr> net =
       call_tool_handler co \<lparr>name = n, arguments = Some (JObj (known_fields kvs))\<rparr> net
   \<and> (safeParse (Some (JObj kvs)) = Inl errs \<longrightarrow>
        (\<forall>e \<in> set errs. path e = [''query''] \<or> path e = [''limit'']))
   \<and> (map_of kvs ''query'' = Some (JStr q) \<and> 1 \<le> length q \<and>
        (map_of kvs ''limit'' = None \<and> l = 5 \<or>
         map_of kvs ''limit'' = Some (JNum (Fin (of_int l))) \<and> 1 \<le> l \<and> l \<le> 50) \<longrightarrow>
        safeParse (Some (JObj kvs)) = Inr \<lparr>query = q, limit = l\<rparr> \<and>
        requests_of (fst (call_tool_handler co
            \<lparr>name = ''search_notices'', arguments = Some (JObj kvs)\<rparr> net)) =
          [search_request q])"
proof (intro conjI impI ballI)
  show "safeParse (Some (JObj kvs)) = safeParse (Some (JObj (known_fields kvs)))"
    by (simp add: safeParse_known_fields)
next
  show "call_tool_handler co \<lparr>name = n, arguments = Some (JObj kvs)\<rparr> net =
       call_tool_handler co \<lparr>name = n, arguments = Some (JObj (known_fields kvs))\<rparr> net"
    by (simp add: call_tool_handler_known_fields)
next
  fix e
  assume "safeParse (Some (JObj kvs)) = Inl errs" and "e \<in> set errs"
  then show "path e = [''query''] \<or> path e = [''limit'']"
    by (rule safeParse_paths)
next
  assume valid: "map_of kvs ''query'' = Some (JStr q) \<and> 1 \<le> length q \<and>
        (map_of kvs ''limit'' = None \<and> l = 5 \<or>
         map_of kvs ''limit'' = Some (JNum (Fin (of_int l))) \<and> 1 \<le> l \<and> l \<le> 50)"
  then show parsed: "safeParse (Some (JObj kvs)) = Inr \<lparr>query = q, limit = l\<rparr>"
    by (auto simp add: safeParse_Inr parse_query_Inr parse_limit_Inr)
  show "requests_of (fst (call_tool_handler co
            \<lparr>name = ''search_notices'', arguments = Some (JObj kvs)\<rparr> net)) =
          [search_request q]"
    by (simp add: call_tool_handler_fst
        call_tool_try_valid [of _ "\<lparr>query = q, limit = l\<rparr>"] parsed requests_of_searchNotices)
qed

theorem safeParse_strips_unknown_fields_witness:
  "safeParse (Some (JObj [(''query'', JStr ''seoul''), (''verbose'', JBool True),
       (''limit'', JNum (Fin 2)), (''page'', JNum (Fin 7))]))
     = Inr \<lparr>query = ''seoul'', limit = 2\<rparr>
   \<and> requests_of (fst (call_tool_handler typed_only
        \<lparr>name = ''search_notices'',
           arguments = Some (JObj [(''query'', JStr ''seoul''), (''verbose'', JBool True),
             (''limit'', JNum (Fin 2)), (''page'', JNum (Fin 7))])\<rparr>
        \<lparr>latency = 30, settles = Never\<rparr>))
     = [\<lparr>endpoint = ''https://ai.start-hub.kr/search'', method = ''POST'',
          headers = [(''Content-Type'', ''application/json'')],
          body = JObj [(''query'', JStr ''seoul'')]\<rparr>]"
  using safeParse_strips_unknown_fields [where kvs = "[(''query'', JStr ''seoul''),
       (''verbose'', JBool True), (''limit'', JNum (Fin 2)), (''page'', JNum (Fin 7))]"
      and q = "''seoul''" and l = 2 and co = typed_only and n = "''search_notices''"
      and errs = "[]" and net = "\<lparr>latency = 30, settles = Never\<rparr>",
      THEN conjunct2, THEN conjunct2, THEN conjunct2]
  by (simp add: search_request_def)

end
